theory Spec2Isabelle
  imports Main "HOL-Library.AList"
begin

section \<open>Values, actions, results\<close>

text \<open>
  The tool handlers of \<^verbatim>\<open>src/main.py\<close> and \<^verbatim>\<open>src/server.py\<close> exchange Python
  values with the \<^verbatim>\<open>games\<close> package: action payloads (\<^verbatim>\<open>Dict[str, Any]\<close>), the
  listings returned by the registry, and the results of the game methods. Floating-point
  values are not part of the model.
\<close>

datatype pyval =
    PyNone
  | PyBool bool
  | PyInt int
  | PyStr string
  | PyList "pyval list"
  | PyTuple "pyval list"
  | PyDict "(string \<times> pyval) list"

text \<open>\<^verbatim>\<open>GameAction(type=..., payload=..., player=...)\<close>.\<close>

record game_action =
  action_type :: string
  payload :: "(string \<times> pyval) list"
  player :: string

text \<open>
  The result object of the registry and game methods, as the handlers read it:
  \<^verbatim>\<open>result.success\<close>, \<^verbatim>\<open>result.new_state\<close>, \<^verbatim>\<open>result.error\<close>. The snapshot
  type \<open>'s\<close> is the state model of the \<^verbatim>\<open>games\<close> package.
\<close>

record 's game_result =
  success :: bool
  new_state :: "'s option"
  error :: "string option"

text \<open>
  A handler returns an f-string. Its parts are kept apart: a literal piece, a formatted
  Python value (\<^verbatim>\<open>{game_id}\<close>, \<^verbatim>\<open>{result.error}\<close>, \<^verbatim>\<open>{result}\<close>), or the formatted
  dump of a snapshot (\<^verbatim>\<open>{state.model_dump()}\<close>).
\<close>

datatype 's frag = Lit string | Val pyval | Dump 's

type_synonym 's reply = "'s frag list"

text \<open>
  The text of a reply whose formatted values are strings or \<^verbatim>\<open>None\<close>: \<^verbatim>\<open>str(s)\<close> is
  \<open>s\<close> itself and \<^verbatim>\<open>str(None)\<close> is \<^verbatim>\<open>None\<close>. The rendering of containers and of
  snapshot dumps is left to Python and yields no text here.
\<close>

fun frag_text :: "'s frag \<Rightarrow> string option" where
  "frag_text (Lit s) = Some s"
| "frag_text (Val (PyStr s)) = Some s"
| "frag_text (Val PyNone) = Some ''None''"
| "frag_text _ = None"

fun reply_text :: "'s reply \<Rightarrow> string option" where
  "reply_text [] = Some []"
| "reply_text (f # fs) =
     (case frag_text f of
        None \<Rightarrow> None
      | Some s \<Rightarrow> (case reply_text fs of None \<Rightarrow> None | Some t \<Rightarrow> Some (s @ t)))"

text \<open>The value of \<^verbatim>\<open>result.error\<close>, an optional string, as a formatted value.\<close>

definition opt_str :: "string option \<Rightarrow> 's frag" where
  "opt_str e = Val (case e of None \<Rightarrow> PyNone | Some s \<Rightarrow> PyStr s)"

text \<open>
  Reading an attribute of \<^verbatim>\<open>None\<close> (\<^verbatim>\<open>result.new_state.id\<close>,
  \<^verbatim>\<open>result.new_state.model_dump()\<close>, \<^verbatim>\<open>game.start\<close>) raises.
\<close>

datatype py_exn = AttributeError

section \<open>The registry and the game interface\<close>

text \<open>
  Modelled from the spec: the class \<^verbatim>\<open>GameRegistry\<close> (\<^verbatim>\<open>games/registry.py\<close>) is not
  among the sources. The registry owns the live sessions keyed by id (the live-session
  map); \<^verbatim>\<open>get(id)\<close> is a pure lookup without mutation. The map is kept in insertion
  order, as a Python dict is.
\<close>

record 'g registry =
  games :: "(string \<times> 'g) list"

definition get_game :: "'g registry \<Rightarrow> string \<Rightarrow> 'g option" where
  "get_game reg game_id = map_of (games reg) game_id"

text \<open>
  A game method mutates the session object that the registry holds under the id it was
  looked up with; the model writes the object after the call back to that id.
\<close>

definition store_game :: "'g registry \<Rightarrow> string \<Rightarrow> 'g \<Rightarrow> 'g registry" where
  "store_game reg game_id game = reg\<lparr>games := AList.update game_id game (games reg)\<rparr>"

text \<open>
  The remaining operations of the \<^verbatim>\<open>games\<close> package are parameters of the handlers:
  \<^verbatim>\<open>registry.create_game\<close>, \<^verbatim>\<open>registry.get_available_games\<close>,
  \<^verbatim>\<open>registry.get_active_games\<close>, the attribute \<^verbatim>\<open>game.type\<close>, the methods
  \<^verbatim>\<open>game.start\<close>, \<^verbatim>\<open>game.make_move\<close>, \<^verbatim>\<open>game.get_state\<close>, \<^verbatim>\<open>game.reset\<close>
  (each returns its value together with the session object after the call), and the
  attribute \<^verbatim>\<open>id\<close> of a snapshot. Following the spec, every operation returns a result
  rather than raising, and the two listings are pure.
\<close>

record ('g, 's) game_api =
  create_game :: "'g registry \<Rightarrow> string \<Rightarrow> string option \<Rightarrow> 's game_result \<times> 'g registry"
  get_available_games :: "'g registry \<Rightarrow> pyval"
  get_active_games :: "'g registry \<Rightarrow> pyval"
  game_type :: "'g \<Rightarrow> string"
  game_start :: "'g \<Rightarrow> string list \<Rightarrow> 's game_result \<times> 'g"
  game_make_move :: "'g \<Rightarrow> game_action \<Rightarrow> 's game_result \<times> 'g"
  game_get_state :: "'g \<Rightarrow> 's \<times> 'g"
  game_reset :: "'g \<Rightarrow> 's game_result \<times> 'g"
  state_id :: "'s \<Rightarrow> string"

type_synonym ('g, 's) handled = "(py_exn + 's reply) \<times> 'g registry"

section \<open>The handlers of \<^verbatim>\<open>main.py\<close>\<close>

text \<open>
  Each handler takes the module's global registry and returns its value (the f-string, or
  the exception raised) with the registry after the call. \<^verbatim>\<open>if not game\<close> is the test
  for \<^verbatim>\<open>None\<close>: a session object is truthy.
\<close>

definition list_games :: "('g, 's) game_api \<Rightarrow> 'g registry \<Rightarrow> bool \<Rightarrow> ('g, 's) handled" where
  "list_games api reg show_active =
     (let available_games = get_available_games api reg;
          result = [(''available_games'', available_games)];
          result = (if show_active
                    then AList.update ''active_games'' (get_active_games api reg) result
                    else result)
      in (Inr [Lit ''Games: '', Val (PyDict result)], reg))"

definition start_game ::
  "('g, 's) game_api \<Rightarrow> 'g registry \<Rightarrow> string \<Rightarrow> string list \<Rightarrow> string option \<Rightarrow> ('g, 's) handled" where
  "start_game api reg game_type_name players game_id =
     (let (result, reg1) = create_game api reg game_type_name game_id in
      if \<not> success result then (Inr [Lit ''Error: '', opt_str (error result)], reg1)
      else (case new_state result of
              None \<Rightarrow> (Inl AttributeError, reg1)
            | Some created \<Rightarrow>
                (case get_game reg1 (state_id api created) of
                   None \<Rightarrow> (Inl AttributeError, reg1)
                 | Some game \<Rightarrow>
                     (let (start_result, game') = game_start api game players;
                          reg2 = store_game reg1 (state_id api created) game'
                      in if success start_result
                         then (case new_state start_result of
                                 None \<Rightarrow> (Inl AttributeError, reg2)
                               | Some s \<Rightarrow> (Inr [Lit ''Game started: '', Dump s], reg2))
                         else (Inr [Lit ''Error starting game: '',
                                    opt_str (error start_result)], reg2)))))"

definition make_move ::
  "('g, 's) game_api \<Rightarrow> 'g registry \<Rightarrow> string \<Rightarrow> string \<Rightarrow> (string \<times> pyval) list \<Rightarrow> string
     \<Rightarrow> ('g, 's) handled" where
  "make_move api reg game_id atype pl plr =
     (case get_game reg game_id of
        None \<Rightarrow> (Inr [Lit ''Game '', Val (PyStr game_id), Lit '' not found''], reg)
      | Some game \<Rightarrow>
          (let action = \<lparr>action_type = atype, payload = pl, player = plr\<rparr>;
               (result, game') = game_make_move api game action;
               reg' = store_game reg game_id game'
           in if success result
              then (case new_state result of
                      None \<Rightarrow> (Inl AttributeError, reg')
                    | Some s \<Rightarrow> (Inr [Lit ''Move successful: '', Dump s], reg'))
              else (Inr [Lit ''Move failed: '', opt_str (error result)], reg')))"

definition get_game_state :: "('g, 's) game_api \<Rightarrow> 'g registry \<Rightarrow> string \<Rightarrow> ('g, 's) handled" where
  "get_game_state api reg game_id =
     (case get_game reg game_id of
        None \<Rightarrow> (Inr [Lit ''Game '', Val (PyStr game_id), Lit '' not found''], reg)
      | Some game \<Rightarrow>
          (let (state, game') = game_get_state api game
           in (Inr [Lit ''Game state: '', Dump state], store_game reg game_id game')))"

definition reset_game :: "('g, 's) game_api \<Rightarrow> 'g registry \<Rightarrow> string \<Rightarrow> ('g, 's) handled" where
  "reset_game api reg game_id =
     (case get_game reg game_id of
        None \<Rightarrow> (Inr [Lit ''Game '', Val (PyStr game_id), Lit '' not found''], reg)
      | Some game \<Rightarrow>
          (let (result, game') = game_reset api game;
               reg' = store_game reg game_id game'
           in if success result
              then (case new_state result of
                      None \<Rightarrow> (Inl AttributeError, reg')
                    | Some s \<Rightarrow> (Inr [Lit ''Game reset: '', Dump s], reg'))
              else (Inr [Lit ''Reset failed: '', opt_str (error result)], reg')))"

definition tic_tac_toe_place_mark ::
  "('g, 's) game_api \<Rightarrow> 'g registry \<Rightarrow> string \<Rightarrow> int \<Rightarrow> int \<Rightarrow> string \<Rightarrow> ('g, 's) handled" where
  "tic_tac_toe_place_mark api reg game_id row col plr =
     (case get_game reg game_id of
        None \<Rightarrow> (Inr [Lit ''Tic-tac-toe game '', Val (PyStr game_id), Lit '' not found''], reg)
      | Some game \<Rightarrow>
          if game_type api game \<noteq> ''tic-tac-toe''
          then (Inr [Lit ''Tic-tac-toe game '', Val (PyStr game_id), Lit '' not found''], reg)
          else
          (let action = \<lparr>action_type = ''place_mark'',
                         payload = [(''row'', PyInt row), (''col'', PyInt col)],
                         player = plr\<rparr>;
               (result, game') = game_make_move api game action;
               reg' = store_game reg game_id game'
           in if success result
              then (case new_state result of
                      None \<Rightarrow> (Inl AttributeError, reg')
                    | Some s \<Rightarrow> (Inr [Lit ''Mark placed: '', Dump s], reg'))
              else (Inr [Lit ''Failed to place mark: '', opt_str (error result)], reg')))"

text \<open>The Gymnasium tools. \<^verbatim>\<open>gym_step\<close> takes the action as any Python value.\<close>

definition gym_step ::
  "('g, 's) game_api \<Rightarrow> 'g registry \<Rightarrow> string \<Rightarrow> pyval \<Rightarrow> string \<Rightarrow> ('g, 's) handled" where
  "gym_step api reg game_id action plr =
     (case get_game reg game_id of
        None \<Rightarrow> (Inr [Lit ''Game '', Val (PyStr game_id), Lit '' not found''], reg)
      | Some game \<Rightarrow>
          (let action_obj = \<lparr>action_type = ''gym_step'',
                             payload = [(''action'', action)],
                             player = plr\<rparr>;
               (result, game') = game_make_move api game action_obj;
               reg' = store_game reg game_id game'
           in if success result
              then (case new_state result of
                      None \<Rightarrow> (Inl AttributeError, reg')
                    | Some s \<Rightarrow> (Inr [Lit ''Step successful: '', Dump s], reg'))
              else (Inr [Lit ''Step failed: '', opt_str (error result)], reg')))"

definition gym_reset :: "('g, 's) game_api \<Rightarrow> 'g registry \<Rightarrow> string \<Rightarrow> ('g, 's) handled" where
  "gym_reset api reg game_id =
     (case get_game reg game_id of
        None \<Rightarrow> (Inr [Lit ''Game '', Val (PyStr game_id), Lit '' not found''], reg)
      | Some game \<Rightarrow>
          (let (result, game') = game_reset api game;
               reg' = store_game reg game_id game'
           in if success result
              then (case new_state result of
                      None \<Rightarrow> (Inl AttributeError, reg')
                    | Some s \<Rightarrow> (Inr [Lit ''Environment reset: '', Dump s], reg'))
              else (Inr [Lit ''Reset failed: '', opt_str (error result)], reg')))"

definition cartpole_move_left ::
  "('g, 's) game_api \<Rightarrow> 'g registry \<Rightarrow> string \<Rightarrow> string \<Rightarrow> ('g, 's) handled" where
  "cartpole_move_left api reg game_id plr =
     (case get_game reg game_id of
        None \<Rightarrow> (Inr [Lit ''CartPole game '', Val (PyStr game_id), Lit '' not found''], reg)
      | Some game \<Rightarrow>
          if game_type api game \<noteq> ''CartPole-v1''
          then (Inr [Lit ''CartPole game '', Val (PyStr game_id), Lit '' not found''], reg)
          else
          (let action_obj = \<lparr>action_type = ''gym_step'',
                             payload = [(''action'', PyInt 0)],
                             player = plr\<rparr>;
               (result, game') = game_make_move api game action_obj;
               reg' = store_game reg game_id game'
           in if success result
              then (case new_state result of
                      None \<Rightarrow> (Inl AttributeError, reg')
                    | Some s \<Rightarrow> (Inr [Lit ''Moved left: '', Dump s], reg'))
              else (Inr [Lit ''Move failed: '', opt_str (error result)], reg')))"

definition cartpole_move_right ::
  "('g, 's) game_api \<Rightarrow> 'g registry \<Rightarrow> string \<Rightarrow> string \<Rightarrow> ('g, 's) handled" where
  "cartpole_move_right api reg game_id plr =
     (case get_game reg game_id of
        None \<Rightarrow> (Inr [Lit ''CartPole game '', Val (PyStr game_id), Lit '' not found''], reg)
      | Some game \<Rightarrow>
          if game_type api game \<noteq> ''CartPole-v1''
          then (Inr [Lit ''CartPole game '', Val (PyStr game_id), Lit '' not found''], reg)
          else
          (let action_obj = \<lparr>action_type = ''gym_step'',
                             payload = [(''action'', PyInt 1)],
                             player = plr\<rparr>;
               (result, game') = game_make_move api game action_obj;
               reg' = store_game reg game_id game'
           in if success result
              then (case new_state result of
                      None \<Rightarrow> (Inl AttributeError, reg')
                    | Some s \<Rightarrow> (Inr [Lit ''Moved right: '', Dump s], reg'))
              else (Inr [Lit ''Move failed: '', opt_str (error result)], reg')))"

definition mountain_car_push_left ::
  "('g, 's) game_api \<Rightarrow> 'g registry \<Rightarrow> string \<Rightarrow> string \<Rightarrow> ('g, 's) handled" where
  "mountain_car_push_left api reg game_id plr =
     (case get_game reg game_id of
        None \<Rightarrow> (Inr [Lit ''MountainCar game '', Val (PyStr game_id), Lit '' not found''], reg)
      | Some game \<Rightarrow>
          if game_type api game \<noteq> ''MountainCar-v0''
          then (Inr [Lit ''MountainCar game '', Val (PyStr game_id), Lit '' not found''], reg)
          else
          (let action_obj = \<lparr>action_type = ''gym_step'',
                             payload = [(''action'', PyInt 0)],
                             player = plr\<rparr>;
               (result, game') = game_make_move api game action_obj;
               reg' = store_game reg game_id game'
           in if success result
              then (case new_state result of
                      None \<Rightarrow> (Inl AttributeError, reg')
                    | Some s \<Rightarrow> (Inr [Lit ''Pushed left: '', Dump s], reg'))
              else (Inr [Lit ''Move failed: '', opt_str (error result)], reg')))"

definition mountain_car_no_push ::
  "('g, 's) game_api \<Rightarrow> 'g registry \<Rightarrow> string \<Rightarrow> string \<Rightarrow> ('g, 's) handled" where
  "mountain_car_no_push api reg game_id plr =
     (case get_game reg game_id of
        None \<Rightarrow> (Inr [Lit ''MountainCar game '', Val (PyStr game_id), Lit '' not found''], reg)
      | Some game \<Rightarrow>
          if game_type api game \<noteq> ''MountainCar-v0''
          then (Inr [Lit ''MountainCar game '', Val (PyStr game_id), Lit '' not found''], reg)
          else
          (let action_obj = \<lparr>action_type = ''gym_step'',
                             payload = [(''action'', PyInt 1)],
                             player = plr\<rparr>;
               (result, game') = game_make_move api game action_obj;
               reg' = store_game reg game_id game'
           in if success result
              then (case new_state result of
                      None \<Rightarrow> (Inl AttributeError, reg')
                    | Some s \<Rightarrow> (Inr [Lit ''No push: '', Dump s], reg'))
              else (Inr [Lit ''Move failed: '', opt_str (error result)], reg')))"

definition mountain_car_push_right ::
  "('g, 's) game_api \<Rightarrow> 'g registry \<Rightarrow> string \<Rightarrow> string \<Rightarrow> ('g, 's) handled" where
  "mountain_car_push_right api reg game_id plr =
     (case get_game reg game_id of
        None \<Rightarrow> (Inr [Lit ''MountainCar game '', Val (PyStr game_id), Lit '' not found''], reg)
      | Some game \<Rightarrow>
          if game_type api game \<noteq> ''MountainCar-v0''
          then (Inr [Lit ''MountainCar game '', Val (PyStr game_id), Lit '' not found''], reg)
          else
          (let action_obj = \<lparr>action_type = ''gym_step'',
                             payload = [(''action'', PyInt 2)],
                             player = plr\<rparr>;
               (result, game') = game_make_move api game action_obj;
               reg' = store_game reg game_id game'
           in if success result
              then (case new_state result of
                      None \<Rightarrow> (Inl AttributeError, reg')
                    | Some s \<Rightarrow> (Inr [Lit ''Pushed right: '', Dump s], reg'))
              else (Inr [Lit ''Move failed: '', opt_str (error result)], reg')))"

definition breakout_noop ::
  "('g, 's) game_api \<Rightarrow> 'g registry \<Rightarrow> string \<Rightarrow> string \<Rightarrow> ('g, 's) handled" where
  "breakout_noop api reg game_id plr =
     (case get_game reg game_id of
        None \<Rightarrow> (Inr [Lit ''Breakout game '', Val (PyStr game_id), Lit '' not found''], reg)
      | Some game \<Rightarrow>
          if game_type api game \<noteq> ''ALE/Breakout-v5''
          then (Inr [Lit ''Breakout game '', Val (PyStr game_id), Lit '' not found''], reg)
          else
          (let action_obj = \<lparr>action_type = ''gym_step'',
                             payload = [(''action'', PyInt 0)],
                             player = plr\<rparr>;
               (result, game') = game_make_move api game action_obj;
               reg' = store_game reg game_id game'
           in if success result
              then (case new_state result of
                      None \<Rightarrow> (Inl AttributeError, reg')
                    | Some s \<Rightarrow> (Inr [Lit ''No-op: '', Dump s], reg'))
              else (Inr [Lit ''Action failed: '', opt_str (error result)], reg')))"

definition breakout_fire ::
  "('g, 's) game_api \<Rightarrow> 'g registry \<Rightarrow> string \<Rightarrow> string \<Rightarrow> ('g, 's) handled" where
  "breakout_fire api reg game_id plr =
     (case get_game reg game_id of
        None \<Rightarrow> (Inr [Lit ''Breakout game '', Val (PyStr game_id), Lit '' not found''], reg)
      | Some game \<Rightarrow>
          if game_type api game \<noteq> ''ALE/Breakout-v5''
          then (Inr [Lit ''Breakout game '', Val (PyStr game_id), Lit '' not found''], reg)
          else
          (let action_obj = \<lparr>action_type = ''gym_step'',
                             payload = [(''action'', PyInt 1)],
                             player = plr\<rparr>;
               (result, game') = game_make_move api game action_obj;
               reg' = store_game reg game_id game'
           in if success result
              then (case new_state result of
                      None \<Rightarrow> (Inl AttributeError, reg')
                    | Some s \<Rightarrow> (Inr [Lit ''Fired: '', Dump s], reg'))
              else (Inr [Lit ''Action failed: '', opt_str (error result)], reg')))"

definition breakout_right ::
  "('g, 's) game_api \<Rightarrow> 'g registry \<Rightarrow> string \<Rightarrow> string \<Rightarrow> ('g, 's) handled" where
  "breakout_right api reg game_id plr =
     (case get_game reg game_id of
        None \<Rightarrow> (Inr [Lit ''Breakout game '', Val (PyStr game_id), Lit '' not found''], reg)
      | Some game \<Rightarrow>
          if game_type api game \<noteq> ''ALE/Breakout-v5''
          then (Inr [Lit ''Breakout game '', Val (PyStr game_id), Lit '' not found''], reg)
          else
          (let action_obj = \<lparr>action_type = ''gym_step'',
                             payload = [(''action'', PyInt 2)],
                             player = plr\<rparr>;
               (result, game') = game_make_move api game action_obj;
               reg' = store_game reg game_id game'
           in if success result
              then (case new_state result of
                      None \<Rightarrow> (Inl AttributeError, reg')
                    | Some s \<Rightarrow> (Inr [Lit ''Moved right: '', Dump s], reg'))
              else (Inr [Lit ''Action failed: '', opt_str (error result)], reg')))"

definition breakout_left ::
  "('g, 's) game_api \<Rightarrow> 'g registry \<Rightarrow> string \<Rightarrow> string \<Rightarrow> ('g, 's) handled" where
  "breakout_left api reg game_id plr =
     (case get_game reg game_id of
        None \<Rightarrow> (Inr [Lit ''Breakout game '', Val (PyStr game_id), Lit '' not found''], reg)
      | Some game \<Rightarrow>
          if game_type api game \<noteq> ''ALE/Breakout-v5''
          then (Inr [Lit ''Breakout game '', Val (PyStr game_id), Lit '' not found''], reg)
          else
          (let action_obj = \<lparr>action_type = ''gym_step'',
                             payload = [(''action'', PyInt 3)],
                             player = plr\<rparr>;
               (result, game') = game_make_move api game action_obj;
               reg' = store_game reg game_id game'
           in if success result
              then (case new_state result of
                      None \<Rightarrow> (Inl AttributeError, reg')
                    | Some s \<Rightarrow> (Inr [Lit ''Moved left: '', Dump s], reg'))
              else (Inr [Lit ''Action failed: '', opt_str (error result)], reg')))"

section \<open>The handlers of \<^verbatim>\<open>server.py\<close>\<close>

text \<open>
  \<^verbatim>\<open>server.py\<close> defines six handlers of its own, over its own module-level registry.
  They are embedded from that file, under the prefix \<open>server_\<close>.
\<close>

definition server_list_games :: "('g, 's) game_api \<Rightarrow> 'g registry \<Rightarrow> bool \<Rightarrow> ('g, 's) handled" where
  "server_list_games api reg show_active =
     (let available_games = get_available_games api reg;
          result = [(''available_games'', available_games)];
          result = (if show_active
                    then AList.update ''active_games'' (get_active_games api reg) result
                    else result)
      in (Inr [Lit ''Games: '', Val (PyDict result)], reg))"

definition server_start_game ::
  "('g, 's) game_api \<Rightarrow> 'g registry \<Rightarrow> string \<Rightarrow> string list \<Rightarrow> string option \<Rightarrow> ('g, 's) handled" where
  "server_start_game api reg game_type_name players game_id =
     (let (result, reg1) = create_game api reg game_type_name game_id in
      if \<not> success result then (Inr [Lit ''Error: '', opt_str (error result)], reg1)
      else (case new_state result of
              None \<Rightarrow> (Inl AttributeError, reg1)
            | Some created \<Rightarrow>
                (case get_game reg1 (state_id api created) of
                   None \<Rightarrow> (Inl AttributeError, reg1)
                 | Some game \<Rightarrow>
                     (let (start_result, game') = game_start api game players;
                          reg2 = store_game reg1 (state_id api created) game'
                      in if success start_result
                         then (case new_state start_result of
                                 None \<Rightarrow> (Inl AttributeError, reg2)
                               | Some s \<Rightarrow> (Inr [Lit ''Game started: '', Dump s], reg2))
                         else (Inr [Lit ''Error starting game: '',
                                    opt_str (error start_result)], reg2)))))"

definition server_make_move ::
  "('g, 's) game_api \<Rightarrow> 'g registry \<Rightarrow> string \<Rightarrow> string \<Rightarrow> (string \<times> pyval) list \<Rightarrow> string
     \<Rightarrow> ('g, 's) handled" where
  "server_make_move api reg game_id atype pl plr =
     (case get_game reg game_id of
        None \<Rightarrow> (Inr [Lit ''Game '', Val (PyStr game_id), Lit '' not found''], reg)
      | Some game \<Rightarrow>
          (let action = \<lparr>action_type = atype, payload = pl, player = plr\<rparr>;
               (result, game') = game_make_move api game action;
               reg' = store_game reg game_id game'
           in if success result
              then (case new_state result of
                      None \<Rightarrow> (Inl AttributeError, reg')
                    | Some s \<Rightarrow> (Inr [Lit ''Move successful: '', Dump s], reg'))
              else (Inr [Lit ''Move failed: '', opt_str (error result)], reg')))"

definition server_get_game_state :: "('g, 's) game_api \<Rightarrow> 'g registry \<Rightarrow> string \<Rightarrow> ('g, 's) handled" where
  "server_get_game_state api reg game_id =
     (case get_game reg game_id of
        None \<Rightarrow> (Inr [Lit ''Game '', Val (PyStr game_id), Lit '' not found''], reg)
      | Some game \<Rightarrow>
          (let (state, game') = game_get_state api game
           in (Inr [Lit ''Game state: '', Dump state], store_game reg game_id game')))"

definition server_reset_game :: "('g, 's) game_api \<Rightarrow> 'g registry \<Rightarrow> string \<Rightarrow> ('g, 's) handled" where
  "server_reset_game api reg game_id =
     (case get_game reg game_id of
        None \<Rightarrow> (Inr [Lit ''Game '', Val (PyStr game_id), Lit '' not found''], reg)
      | Some game \<Rightarrow>
          (let (result, game') = game_reset api game;
               reg' = store_game reg game_id game'
           in if success result
              then (case new_state result of
                      None \<Rightarrow> (Inl AttributeError, reg')
                    | Some s \<Rightarrow> (Inr [Lit ''Game reset: '', Dump s], reg'))
              else (Inr [Lit ''Reset failed: '', opt_str (error result)], reg')))"

definition server_tic_tac_toe_place_mark ::
  "('g, 's) game_api \<Rightarrow> 'g registry \<Rightarrow> string \<Rightarrow> int \<Rightarrow> int \<Rightarrow> string \<Rightarrow> ('g, 's) handled" where
  "server_tic_tac_toe_place_mark api reg game_id row col plr =
     (case get_game reg game_id of
        None \<Rightarrow> (Inr [Lit ''Tic-tac-toe game '', Val (PyStr game_id), Lit '' not found''], reg)
      | Some game \<Rightarrow>
          if game_type api game \<noteq> ''tic-tac-toe''
          then (Inr [Lit ''Tic-tac-toe game '', Val (PyStr game_id), Lit '' not found''], reg)
          else
          (let action = \<lparr>action_type = ''place_mark'',
                         payload = [(''row'', PyInt row), (''col'', PyInt col)],
                         player = plr\<rparr>;
               (result, game') = game_make_move api game action;
               reg' = store_game reg game_id game'
           in if success result
              then (case new_state result of
                      None \<Rightarrow> (Inl AttributeError, reg')
                    | Some s \<Rightarrow> (Inr [Lit ''Mark placed: '', Dump s], reg'))
              else (Inr [Lit ''Failed to place mark: '', opt_str (error result)], reg')))"

section \<open>Comparing replies\<close>

text \<open>
  The replies of the convenience commands are compared with those of \<^verbatim>\<open>make_move\<close>
  up to the two prefixes that \<^verbatim>\<open>make_move\<close> puts before a snapshot and before an
  error: \<open>relabel\<close> replaces them and changes nothing else.
\<close>

fun relabel :: "string \<Rightarrow> string \<Rightarrow> py_exn + 's reply \<Rightarrow> py_exn + 's reply" where
  "relabel ok_label fail_label (Inr [Lit l, x]) =
     (if l = ''Move successful: '' then Inr [Lit ok_label, x]
      else if l = ''Move failed: '' then Inr [Lit fail_label, x]
      else Inr [Lit l, x])"
| "relabel ok_label fail_label v = v"

section \<open>The games package\<close>

text \<open>
  Modelled from the spec: the package \<^verbatim>\<open>games\<close> (\<^verbatim>\<open>games/registry.py\<close>,
  \<^verbatim>\<open>games/types.py\<close> and the game classes) is not among the sources. This section
  follows sections 3, 4 and 7 of the spec: the session registry, the two variants of the game
  state machine (board game, simulation adapter) and the error kinds. An error is
  reported by the name of its kind. The wrapped environment is opaque: its state \<open>'e\<close>,
  its observations \<open>'o\<close> and its dynamics are parameters; rewards are integers.
\<close>

text \<open>
  Modelled from the spec: the status of a session is one of pending, in progress and
  finished (section 3).
\<close>

datatype status = Pending | InProgress | Finished

text \<open>
  Modelled from the spec: a board game ends with a win credited to a player or with a draw
  (section 4.2.1).
\<close>

datatype verdict = Undecided | Winner string | Draw

text \<open>
  Modelled from the spec: the state of a board game (section 4.2.1): the 3 by 3 grid of cells (empty, or the mark of a player), whose turn
  it is (an index into the list of players), and the outcome.
\<close>

record board =
  cells :: "nat \<times> nat \<Rightarrow> string option"
  turn :: nat
  verdict :: verdict

text \<open>
  Modelled from the spec: the state of a simulation adapter (section 4.2.2): the wrapped environment, the size of its discrete action
  space, the last observation it returned (none before the first reset), the reward of the
  last step, the accumulated episode reward and the done flag.
\<close>

record ('e, 'o) sim =
  env :: 'e
  n_actions :: nat
  observation :: "'o option"
  last_reward :: int
  total_reward :: int
  episode_done :: bool

text \<open>Modelled from the spec: the two variants of the game state machine (section 2).\<close>

datatype ('e, 'o) body = Board board | Sim "('e, 'o) sim"

text \<open>
  Modelled from the spec: a session has an id, a kind, a player list and a status
  (section 3); it also keeps the player count that its kind requires.
\<close>

record ('e, 'o) session =
  session_id :: string
  session_type :: string
  players :: "string list"
  status :: status
  seats :: nat
  body :: "('e, 'o) body"

text \<open>
  Modelled from the spec: the kind-specific fields of a snapshot (section 3): the board, or
  the last observation, the last reward, the accumulated reward and the done flag.
\<close>

datatype 'o view = BoardView board | SimView "'o option" int int bool

text \<open>
  Modelled from the spec: a snapshot, the observable state of a session at an instant
  (sections 2 and 3).
\<close>

record 'o snapshot =
  snap_id :: string
  snap_type :: string
  snap_players :: "string list"
  snap_status :: status
  snap_view :: "'o view"

text \<open>
  Modelled from the spec: a registered kind resolves to a factory (section 3): here the
  variant to instantiate (for a simulation, with the size of its discrete action space)
  and the player count that \<^verbatim>\<open>start\<close> requires.
\<close>

datatype variant = BoardGame | Simulation nat

record kind_spec =
  required_players :: nat
  variant :: variant

text \<open>
  Modelled from the spec: what the spec leaves to the surroundings (sections 1 and 4.1): the registration table of kinds, the generator
  of session ids (from the ids that are live), and the contract of the wrapped
  environments: \<^verbatim>\<open>reset() -> observation\<close> and
  \<^verbatim>\<open>step(action) -> (observation, reward, done)\<close>, where a step may fail.
\<close>

record ('e, 'o) world =
  kinds :: "(string \<times> kind_spec) list"
  new_id :: "string list \<Rightarrow> string"
  env_make :: "string \<Rightarrow> 'e"
  env_reset :: "'e \<Rightarrow> 'o \<times> 'e"
  env_step :: "'e \<Rightarrow> nat \<Rightarrow> ('o \<times> int \<times> bool \<times> 'e) option"

text \<open>
  Modelled from the spec: a result is either a success carrying a new snapshot or a
  failure carrying an error description (section 2).
\<close>

definition ok :: "'s \<Rightarrow> 's game_result" where
  "ok s = \<lparr>success = True, new_state = Some s, error = None\<rparr>"

definition failure :: "string \<Rightarrow> 's game_result" where
  "failure e = \<lparr>success = False, new_state = None, error = Some e\<rparr>"

text \<open>
  Modelled from the spec: \<^verbatim>\<open>current_state()\<close> is pure and reflects the latest
  committed state (section 4.2).
\<close>

definition session_get_state :: "('e, 'o) session \<Rightarrow> 'o snapshot" where
  "session_get_state g =
     \<lparr>snap_id = session_id g, snap_type = session_type g, snap_players = players g,
      snap_status = status g,
      snap_view = (case body g of
                     Board b \<Rightarrow> BoardView b
                   | Sim s \<Rightarrow> SimView (observation s) (last_reward s) (total_reward s) (episode_done s))\<rparr>"

text \<open>
  Modelled from the spec: the starting configuration of a kind (section 4.2): an empty
  grid with the turn at the first player, or a new environment without observation.
\<close>

definition empty_board :: board where
  "empty_board = \<lparr>cells = (\<lambda>_. None), turn = 0, verdict = Undecided\<rparr>"

definition new_body :: "('e, 'o) world \<Rightarrow> string \<Rightarrow> variant \<Rightarrow> ('e, 'o) body" where
  "new_body w kind_name v =
     (case v of
        BoardGame \<Rightarrow> Board empty_board
      | Simulation n \<Rightarrow>
          Sim \<lparr>env = env_make w kind_name, n_actions = n, observation = None,
               last_reward = 0, total_reward = 0, episode_done = False\<rparr>)"

text \<open>
  Modelled from the spec: \<^verbatim>\<open>create(kind_name, optional explicit_id)\<close> (section 4.1): \<^verbatim>\<open>UnknownKind\<close> for an unregistered
  kind, \<^verbatim>\<open>DuplicateId\<close> for an explicit id that is live, otherwise a generated id;
  the new session is pending and is inserted into the live-session map.
\<close>

definition registry_create_game ::
  "('e, 'o) world \<Rightarrow> ('e, 'o) session registry \<Rightarrow> string \<Rightarrow> string option
     \<Rightarrow> 'o snapshot game_result \<times> ('e, 'o) session registry" where
  "registry_create_game w reg kind_name explicit_id =
     (case map_of (kinds w) kind_name of
        None \<Rightarrow> (failure ''UnknownKind'', reg)
      | Some k \<Rightarrow>
          (let live = map fst (games reg);
               i = (case explicit_id of None \<Rightarrow> new_id w live | Some x \<Rightarrow> x)
           in if explicit_id \<noteq> None \<and> i \<in> set live then (failure ''DuplicateId'', reg)
              else
                (let g = \<lparr>session_id = i, session_type = kind_name, players = [],
                          status = Pending, seats = required_players k,
                          body = new_body w kind_name (variant k)\<rparr>
                 in (ok (session_get_state g),
                     reg\<lparr>games := AList.update i g (games reg)\<rparr>))))"

text \<open>
  Modelled from the spec: \<^verbatim>\<open>list_kinds()\<close>, the kind names of the registration
  table, and \<^verbatim>\<open>list_active()\<close>, the mapping from the id of each live session to its
  kind and status (section 4.1).
\<close>

definition registry_get_available_games :: "('e, 'o) world \<Rightarrow> pyval" where
  "registry_get_available_games w = PyList (map (\<lambda>(n, _). PyStr n) (kinds w))"

definition status_name :: "status \<Rightarrow> string" where
  "status_name st =
     (case st of Pending \<Rightarrow> ''pending'' | InProgress \<Rightarrow> ''in_progress''
               | Finished \<Rightarrow> ''finished'')"

definition registry_get_active_games :: "('e, 'o) session registry \<Rightarrow> pyval" where
  "registry_get_active_games reg =
     PyDict (map (\<lambda>(i, g). (i, PyTuple [PyStr (session_type g), PyStr (status_name (status g))]))
               (games reg))"

text \<open>
  Modelled from the spec: \<^verbatim>\<open>start(players)\<close> (sections 3 and 4.2): \<^verbatim>\<open>InvalidPlayers\<close> unless the session is pending and the
  players are as many as the kind requires, and pairwise different; a simulation adapter
  resets its environment and stores the initial observation.
\<close>

definition session_start ::
  "('e, 'o) world \<Rightarrow> ('e, 'o) session \<Rightarrow> string list
     \<Rightarrow> 'o snapshot game_result \<times> ('e, 'o) session" where
  "session_start w g ps =
     (if status g \<noteq> Pending \<or> length ps \<noteq> seats g \<or> \<not> distinct ps
      then (failure ''InvalidPlayers'', g)
      else
        (let b = (case body g of
                    Board bd \<Rightarrow> Board bd
                  | Sim s \<Rightarrow>
                      (let (obs, e) = env_reset w (env s)
                       in Sim (s\<lparr>env := e, observation := Some obs\<rparr>)));
             g' = g\<lparr>players := ps, status := InProgress, body := b\<rparr>
         in (ok (session_get_state g'), g')))"

text \<open>
  Modelled from the spec: the payload is validated before the state is touched, and unknown
  fields and types are rejected (section 9): an integer field of a payload that holds no
  field beyond \<open>allowed\<close>.
\<close>

definition payload_int :: "(string \<times> pyval) list \<Rightarrow> string list \<Rightarrow> string \<Rightarrow> int option" where
  "payload_int pl allowed k =
     (if list_all (\<lambda>(f, _). f \<in> set allowed) pl
      then (case map_of pl k of Some (PyInt i) \<Rightarrow> Some i | _ \<Rightarrow> None)
      else None)"

text \<open>
  Modelled from the spec: the rows, columns and diagonals of the grid, three in a row for
  a player, and the fully occupied grid (section 4.2.1).
\<close>

definition board_lines :: "(nat \<times> nat) list list" where
  "board_lines =
     [[(0, 0), (0, 1), (0, 2)], [(1, 0), (1, 1), (1, 2)], [(2, 0), (2, 1), (2, 2)],
      [(0, 0), (1, 0), (2, 0)], [(0, 1), (1, 1), (2, 1)], [(0, 2), (1, 2), (2, 2)],
      [(0, 0), (1, 1), (2, 2)], [(0, 2), (1, 1), (2, 0)]]"

definition three_in_a_row :: "(nat \<times> nat \<Rightarrow> string option) \<Rightarrow> string \<Rightarrow> bool" where
  "three_in_a_row c p = list_ex (list_all (\<lambda>rc. c rc = Some p)) board_lines"

definition grid_full :: "(nat \<times> nat \<Rightarrow> string option) \<Rightarrow> bool" where
  "grid_full c = list_all (\<lambda>rc. c rc \<noteq> None) (concat board_lines)"

text \<open>
  Modelled from the spec: the placement action of the board game (section 4.2.1): coordinates in range, cell empty, acting player
  holds the turn; then the mark is placed, the turn passes to the other player and
  termination is evaluated, a win before a draw.
\<close>

definition board_place ::
  "('e, 'o) session \<Rightarrow> board \<Rightarrow> game_action \<Rightarrow> 'o snapshot game_result \<times> ('e, 'o) session" where
  "board_place g b a =
     (case (payload_int (payload a) [''row'', ''col''] ''row'',
            payload_int (payload a) [''row'', ''col''] ''col'') of
        (Some r, Some c) \<Rightarrow>
          if r < 0 \<or> 2 < r \<or> c < 0 \<or> 2 < c then (failure ''IllegalAction'', g)
          else if cells b (nat r, nat c) \<noteq> None then (failure ''IllegalAction'', g)
          else if turn b \<ge> length (players g) \<or> players g ! turn b \<noteq> player a
          then (failure ''IllegalAction'', g)
          else
            (let cs = (cells b)((nat r, nat c) := Some (player a));
                 v = (if three_in_a_row cs (player a) then Winner (player a)
                      else if grid_full cs then Draw else Undecided);
                 b' = \<lparr>cells = cs, turn = (turn b + 1) mod 2, verdict = v\<rparr>;
                 g' = g\<lparr>status := (if v = Undecided then InProgress else Finished),
                        body := Board b'\<rparr>
             in (ok (session_get_state g'), g'))
      | _ \<Rightarrow> (failure ''IllegalAction'', g))"

text \<open>
  Modelled from the spec: the step action of a simulation adapter (sections 4.2.2 and 7): the action code lies in the declared action
  space; the step of the environment is stored and its reward accumulated; a failed step
  is an \<^verbatim>\<open>EnvironmentFault\<close> that leaves the session as it was.
\<close>

definition sim_step ::
  "('e, 'o) world \<Rightarrow> ('e, 'o) session \<Rightarrow> ('e, 'o) sim \<Rightarrow> game_action
     \<Rightarrow> 'o snapshot game_result \<times> ('e, 'o) session" where
  "sim_step w g s a =
     (case payload_int (payload a) [''action''] ''action'' of
        None \<Rightarrow> (failure ''IllegalAction'', g)
      | Some code \<Rightarrow>
          if code < 0 \<or> int (n_actions s) \<le> code then (failure ''IllegalAction'', g)
          else
            (case env_step w (env s) (nat code) of
               None \<Rightarrow> (failure ''EnvironmentFault'', g)
             | Some (obs, r, d, e) \<Rightarrow>
                 (let s' = \<lparr>env = e, n_actions = n_actions s, observation = Some obs,
                            last_reward = r, total_reward = total_reward s + r, episode_done = d\<rparr>;
                      g' = g\<lparr>status := (if d then Finished else InProgress), body := Sim s'\<rparr>
                  in (ok (session_get_state g'), g'))))"

text \<open>
  Modelled from the spec: \<^verbatim>\<open>apply_action(action)\<close> (section 4.2): \<^verbatim>\<open>IllegalAction\<close> unless the session is in progress,
  the acting player takes part and the tag belongs to the vocabulary of the kind.
\<close>

definition session_make_move ::
  "('e, 'o) world \<Rightarrow> ('e, 'o) session \<Rightarrow> game_action
     \<Rightarrow> 'o snapshot game_result \<times> ('e, 'o) session" where
  "session_make_move w g a =
     (if status g \<noteq> InProgress \<or> player a \<notin> set (players g)
      then (failure ''IllegalAction'', g)
      else (case body g of
              Board b \<Rightarrow>
                if action_type a = ''place_mark'' then board_place g b a
                else (failure ''IllegalAction'', g)
            | Sim s \<Rightarrow>
                if action_type a = ''gym_step'' then sim_step w g s a
                else (failure ''IllegalAction'', g)))"

text \<open>
  Modelled from the spec: \<^verbatim>\<open>reset()\<close> (section 4.2): a board game returns to pending with an empty grid and the turn at the
  first player; a simulation adapter resets its environment, clears the accumulated
  reward and is in progress at once. Id, kind and players are kept.
\<close>

definition session_reset ::
  "('e, 'o) world \<Rightarrow> ('e, 'o) session \<Rightarrow> 'o snapshot game_result \<times> ('e, 'o) session" where
  "session_reset w g =
     (let g' = (case body g of
                  Board b \<Rightarrow> g\<lparr>status := Pending, body := Board empty_board\<rparr>
                | Sim s \<Rightarrow>
                    (let (obs, e) = env_reset w (env s)
                     in g\<lparr>status := InProgress,
                          body := Sim \<lparr>env = e, n_actions = n_actions s,
                                       observation = Some obs, last_reward = 0,
                                       total_reward = 0, episode_done = False\<rparr>\<rparr>))
      in (ok (session_get_state g'), g'))"

text \<open>
  Modelled from the spec: the package as the handlers use it, each operation of the spec
  under the name by which \<^verbatim>\<open>main.py\<close> calls it.
\<close>

definition games_package ::
  "('e, 'o) world \<Rightarrow> (('e, 'o) session, 'o snapshot) game_api" where
  "games_package w =
     \<lparr>create_game = registry_create_game w,
      get_available_games = (\<lambda>_. registry_get_available_games w),
      get_active_games = registry_get_active_games,
      game_type = session_type,
      game_start = session_start w,
      game_make_move = session_make_move w,
      game_get_state = (\<lambda>g. (session_get_state g, g)),
      game_reset = session_reset w,
      state_id = snap_id\<rparr>"

subsection \<open>A concrete world\<close>

text \<open>
  The four kinds that the handlers of \<^verbatim>\<open>main.py\<close> name, with the action codes their
  tools send (two for CartPole, three for MountainCar, four for Breakout); an id generator
  that returns a string longer than every live id; and a counting environment whose
  episodes last three steps.
\<close>

definition longer_id :: "string list \<Rightarrow> string" where
  "longer_id live = replicate (Suc (foldr max (map length live) 0)) CHR ''g''"

definition counting_world :: "(nat, nat list) world" where
  "counting_world =
     \<lparr>kinds = [(''tic-tac-toe'', \<lparr>required_players = 2, variant = BoardGame\<rparr>),
               (''CartPole-v1'', \<lparr>required_players = 1, variant = Simulation 2\<rparr>),
               (''MountainCar-v0'', \<lparr>required_players = 1, variant = Simulation 3\<rparr>),
               (''ALE/Breakout-v5'', \<lparr>required_players = 1, variant = Simulation 4\<rparr>)],
      new_id = longer_id,
      env_make = (\<lambda>_. 0),
      env_reset = (\<lambda>_. ([0], 0)),
      env_step = (\<lambda>n a. Some ([Suc n, a], 1, 3 \<le> Suc n, Suc n))\<rparr>"

text \<open>
  A registry with two live sessions, reached from the empty registry by two calls of
  \<^verbatim>\<open>start_game\<close>: a tic-tac-toe game of alice and bob under the id \<^verbatim>\<open>g1\<close> and a
  CartPole episode of carol under the id \<^verbatim>\<open>g2\<close>.
\<close>

definition demo_package :: "((nat, nat list) session, nat list snapshot) game_api" where
  "demo_package = games_package counting_world"

definition no_sessions :: "(nat, nat list) session registry" where
  "no_sessions = \<lparr>games = []\<rparr>"

definition two_sessions :: "(nat, nat list) session registry" where
  "two_sessions =
     snd (start_game demo_package
            (snd (start_game demo_package no_sessions ''tic-tac-toe'' [''alice'', ''bob'']
                    (Some ''g1'')))
            ''CartPole-v1'' [''carol''] (Some ''g2''))"

definition board_session :: "(nat, nat list) session" where
  "board_session =
     \<lparr>session_id = ''g1'', session_type = ''tic-tac-toe'', players = [''alice'', ''bob''],
      status = InProgress, seats = 2, body = Board empty_board\<rparr>"

definition cartpole_session :: "(nat, nat list) session" where
  "cartpole_session =
     \<lparr>session_id = ''g2'', session_type = ''CartPole-v1'', players = [''carol''],
      status = InProgress, seats = 1,
      body = Sim \<lparr>env = 0, n_actions = 2, observation = Some [0], last_reward = 0,
                  total_reward = 0, episode_done = False\<rparr>\<rparr>"

text \<open>
  A tic-tac-toe position late in a game: alice holds two cells of the first row, bob two
  cells of the second, and it is the turn of alice.
\<close>

definition place :: "int \<Rightarrow> int \<Rightarrow> string \<Rightarrow> game_action" where
  "place r c p = \<lparr>action_type = ''place_mark'',
                  payload = [(''row'', PyInt r), (''col'', PyInt c)], player = p\<rparr>"

definition late_cells :: "nat \<times> nat \<Rightarrow> string option" where
  "late_cells rc = (if rc = (0, 0) \<or> rc = (0, 1) then Some ''alice''
                    else if rc = (1, 0) \<or> rc = (1, 1) then Some ''bob''
                    else None)"

definition late_board :: "(nat, nat list) session" where
  "late_board =
     board_session\<lparr>body := Board \<lparr>cells = late_cells, turn = 0, verdict = Undecided\<rparr>\<rparr>"

text \<open>A tic-tac-toe session as \<^verbatim>\<open>create_game\<close> leaves it, under the id \<^verbatim>\<open>g3\<close>.\<close>

definition pending_board :: "(nat, nat list) session" where
  "pending_board =
     \<lparr>session_id = ''g3'', session_type = ''tic-tac-toe'', players = [],
      status = Pending, seats = 2, body = Board empty_board\<rparr>"

text \<open>The same session under the id that the generator of the concrete world returns.\<close>

definition pending_generated :: "(nat, nat list) session" where
  "pending_generated =
     \<lparr>session_id = ''ggg'', session_type = ''tic-tac-toe'', players = [],
      status = Pending, seats = 2, body = Board empty_board\<rparr>"

text \<open>
  A result is well formed when exactly one of snapshot and error is populated: the
  snapshot when \<^verbatim>\<open>success\<close> is true, the error when it is false.
\<close>

definition well_formed :: "'s game_result \<Rightarrow> bool" where
  "well_formed r =
     (if success r then new_state r \<noteq> None \<and> error r = None
      else new_state r = None \<and> error r \<noteq> None)"

section \<open>Properties of the handlers\<close>

lemmas package_defs =
  demo_package_def games_package_def counting_world_def registry_create_game_def
  session_start_def session_make_move_def session_reset_def session_get_state_def
  new_body_def ok_def failure_def get_game_def store_game_def

lemma two_sessions_games:
  "games two_sessions = [(''g1'', board_session), (''g2'', cartpole_session)]"
  by (simp add: two_sessions_def no_sessions_def start_game_def package_defs Let_def
      board_session_def cartpole_session_def)

lemma two_sessions_eq:
  "two_sessions = \<lparr>games = [(''g1'', board_session), (''g2'', cartpole_session)]\<rparr>"
  using two_sessions_games by (cases two_sessions) simp

lemma g1_live: "get_game two_sessions ''g1'' = Some board_session"
  by (simp add: get_game_def two_sessions_games)

lemma g2_live: "get_game two_sessions ''g2'' = Some cartpole_session"
  by (simp add: get_game_def two_sessions_games)

lemma g9_not_live: "get_game two_sessions ''g9'' = None"
  by (simp add: get_game_def two_sessions_games)

lemma demo_types:
  "game_type demo_package board_session = ''tic-tac-toe''"
  "game_type demo_package cartpole_session = ''CartPole-v1''"
  by (simp_all add: demo_package_def games_package_def board_session_def cartpole_session_def)

lemma bob_out_of_turn:
  "game_make_move demo_package board_session
     \<lparr>action_type = ''place_mark'', payload = [(''row'', PyInt 0), (''col'', PyInt 0)],
      player = ''bob''\<rparr> = (failure ''IllegalAction'', board_session)"
  by (simp add: demo_package_def games_package_def session_make_move_def board_place_def
      payload_int_def board_session_def empty_board_def)

lemma carol_moves_left:
  "game_make_move demo_package cartpole_session
     \<lparr>action_type = ''gym_step'', payload = [(''action'', PyInt 0)], player = ''carol''\<rparr>
   = (ok \<lparr>snap_id = ''g2'', snap_type = ''CartPole-v1'', snap_players = [''carol''],
          snap_status = InProgress, snap_view = SimView (Some [1, 0]) 1 1 False\<rparr>,
      cartpole_session\<lparr>body := Sim \<lparr>env = 1, n_actions = 2, observation = Some [1, 0],
                                      last_reward = 1, total_reward = 1,
                                      episode_done = False\<rparr>\<rparr>)"
  by (simp add: demo_package_def games_package_def session_make_move_def sim_step_def
      payload_int_def cartpole_session_def counting_world_def session_get_state_def Let_def)

lemma alice_steps_board:
  "game_make_move demo_package board_session
     \<lparr>action_type = ''gym_step'', payload = [(''action'', PyInt 0)], player = ''alice''\<rparr>
   = (failure ''IllegalAction'', board_session)"
  by (simp add: demo_package_def games_package_def session_make_move_def board_session_def)

lemmas fixed_kind_defs =
  tic_tac_toe_place_mark_def cartpole_move_left_def cartpole_move_right_def
  mountain_car_push_left_def mountain_car_no_push_def mountain_car_push_right_def
  breakout_noop_def breakout_fire_def breakout_right_def breakout_left_def

subsection \<open>The games package on the testable properties of the spec\<close>

text \<open>
  The id generator of the concrete world returns an id that is not live. In the late
  position the third mark of alice in the first row ends the game with alice as winner,
  after which a placement is an illegal action; a mark on an occupied cell and a mark out
  of turn are illegal actions that leave the session as it was.
\<close>

lemma length_le_foldr_max: "k \<in> set live \<Longrightarrow> length k \<le> foldr max (map length live) 0"
  by (induction live) auto

lemma longer_id_fresh: "longer_id live \<notin> set live"
proof
  assume "longer_id live \<in> set live"
  then have "length (longer_id live) \<le> foldr max (map length live) 0"
    by (rule length_le_foldr_max)
  then show False by (simp add: longer_id_def)
qed

lemma place_fields:
  "payload_int (payload (place r c p)) [''row'', ''col''] ''row'' = Some r"
  "payload_int (payload (place r c p)) [''row'', ''col''] ''col'' = Some c"
  "action_type (place r c p) = ''place_mark''"
  "player (place r c p) = p"
  by (simp_all add: payload_int_def place_def)

lemma late_cells_values:
  "late_cells (0, 0) = Some ''alice''" "late_cells (0, 2) = None" "late_cells (2, 2) = None"
  by (simp_all add: late_cells_def)

lemma late_row: "three_in_a_row (late_cells((0, 2) := Some ''alice'')) ''alice''"
  by (simp add: three_in_a_row_def board_lines_def late_cells_def)

lemma alice_wins:
  "\<exists>g. session_make_move counting_world late_board (place 0 2 ''alice'')
          = (ok (session_get_state g), g)
       \<and> status g = Finished
       \<and> (\<exists>b. body g = Board b \<and> verdict b = Winner ''alice'')
       \<and> session_make_move counting_world g (place 2 2 ''bob'') = (failure ''IllegalAction'', g)"
  by (simp add: session_make_move_def board_place_def place_fields late_board_def
      board_session_def late_cells_values late_row Let_def)

lemma occupied_cell_rejected:
  "session_make_move counting_world late_board (place 0 0 ''alice'')
     = (failure ''IllegalAction'', late_board)"
  by (simp add: session_make_move_def board_place_def place_fields late_board_def
      board_session_def late_cells_values)

lemma out_of_turn_rejected:
  "session_make_move counting_world late_board (place 2 2 ''bob'')
     = (failure ''IllegalAction'', late_board)"
  by (simp add: session_make_move_def board_place_def place_fields late_board_def
      board_session_def late_cells_values)

subsection \<open>The convenience commands\<close>

lemma relabel_cases:
  "relabel a b (Inr [Lit ''Move successful: '', x]) = Inr [Lit a, x]"
  "relabel a b (Inr [Lit ''Move failed: '', x]) = Inr [Lit b, x]"
  "relabel a b (Inl e) = Inl e"
  "relabel a b (Inr (f # g # h # fs)) = Inr (f # g # h # fs)"
  by simp_all

lemma tic_tac_toe_place_mark_as_make_move:
  "tic_tac_toe_place_mark api reg game_id row col plr =
     (if map_option (game_type api) (get_game reg game_id) = Some ''tic-tac-toe''
      then map_prod (relabel ''Mark placed: '' ''Failed to place mark: '') id
             (make_move api reg game_id ''place_mark''
                [(''row'', PyInt row), (''col'', PyInt col)] plr)
      else (Inr [Lit ''Tic-tac-toe game '', Val (PyStr game_id), Lit '' not found''], reg))"
  by (simp add: tic_tac_toe_place_mark_def make_move_def opt_str_def relabel_cases Let_def
      del: relabel.simps split: prod.splits option.splits)

lemma cartpole_move_left_as_make_move:
  "cartpole_move_left api reg game_id plr =
     (if map_option (game_type api) (get_game reg game_id) = Some ''CartPole-v1''
      then map_prod (relabel ''Moved left: '' ''Move failed: '') id
             (make_move api reg game_id ''gym_step'' [(''action'', PyInt 0)] plr)
      else (Inr [Lit ''CartPole game '', Val (PyStr game_id), Lit '' not found''], reg))"
  by (simp add: cartpole_move_left_def make_move_def opt_str_def relabel_cases Let_def
      del: relabel.simps split: prod.splits option.splits)

lemma cartpole_move_right_as_make_move:
  "cartpole_move_right api reg game_id plr =
     (if map_option (game_type api) (get_game reg game_id) = Some ''CartPole-v1''
      then map_prod (relabel ''Moved right: '' ''Move failed: '') id
             (make_move api reg game_id ''gym_step'' [(''action'', PyInt 1)] plr)
      else (Inr [Lit ''CartPole game '', Val (PyStr game_id), Lit '' not found''], reg))"
  by (simp add: cartpole_move_right_def make_move_def opt_str_def relabel_cases Let_def
      del: relabel.simps split: prod.splits option.splits)

lemma mountain_car_push_left_as_make_move:
  "mountain_car_push_left api reg game_id plr =
     (if map_option (game_type api) (get_game reg game_id) = Some ''MountainCar-v0''
      then map_prod (relabel ''Pushed left: '' ''Move failed: '') id
             (make_move api reg game_id ''gym_step'' [(''action'', PyInt 0)] plr)
      else (Inr [Lit ''MountainCar game '', Val (PyStr game_id), Lit '' not found''], reg))"
  by (simp add: mountain_car_push_left_def make_move_def opt_str_def relabel_cases Let_def
      del: relabel.simps split: prod.splits option.splits)

lemma mountain_car_no_push_as_make_move:
  "mountain_car_no_push api reg game_id plr =
     (if map_option (game_type api) (get_game reg game_id) = Some ''MountainCar-v0''
      then map_prod (relabel ''No push: '' ''Move failed: '') id
             (make_move api reg game_id ''gym_step'' [(''action'', PyInt 1)] plr)
      else (Inr [Lit ''MountainCar game '', Val (PyStr game_id), Lit '' not found''], reg))"
  by (simp add: mountain_car_no_push_def make_move_def opt_str_def relabel_cases Let_def
      del: relabel.simps split: prod.splits option.splits)

lemma mountain_car_push_right_as_make_move:
  "mountain_car_push_right api reg game_id plr =
     (if map_option (game_type api) (get_game reg game_id) = Some ''MountainCar-v0''
      then map_prod (relabel ''Pushed right: '' ''Move failed: '') id
             (make_move api reg game_id ''gym_step'' [(''action'', PyInt 2)] plr)
      else (Inr [Lit ''MountainCar game '', Val (PyStr game_id), Lit '' not found''], reg))"
  by (simp add: mountain_car_push_right_def make_move_def opt_str_def relabel_cases Let_def
      del: relabel.simps split: prod.splits option.splits)

lemma breakout_noop_as_make_move:
  "breakout_noop api reg game_id plr =
     (if map_option (game_type api) (get_game reg game_id) = Some ''ALE/Breakout-v5''
      then map_prod (relabel ''No-op: '' ''Action failed: '') id
             (make_move api reg game_id ''gym_step'' [(''action'', PyInt 0)] plr)
      else (Inr [Lit ''Breakout game '', Val (PyStr game_id), Lit '' not found''], reg))"
  by (simp add: breakout_noop_def make_move_def opt_str_def relabel_cases Let_def
      del: relabel.simps split: prod.splits option.splits)

lemma breakout_fire_as_make_move:
  "breakout_fire api reg game_id plr =
     (if map_option (game_type api) (get_game reg game_id) = Some ''ALE/Breakout-v5''
      then map_prod (relabel ''Fired: '' ''Action failed: '') id
             (make_move api reg game_id ''gym_step'' [(''action'', PyInt 1)] plr)
      else (Inr [Lit ''Breakout game '', Val (PyStr game_id), Lit '' not found''], reg))"
  by (simp add: breakout_fire_def make_move_def opt_str_def relabel_cases Let_def
      del: relabel.simps split: prod.splits option.splits)

lemma breakout_right_as_make_move:
  "breakout_right api reg game_id plr =
     (if map_option (game_type api) (get_game reg game_id) = Some ''ALE/Breakout-v5''
      then map_prod (relabel ''Moved right: '' ''Action failed: '') id
             (make_move api reg game_id ''gym_step'' [(''action'', PyInt 2)] plr)
      else (Inr [Lit ''Breakout game '', Val (PyStr game_id), Lit '' not found''], reg))"
  by (simp add: breakout_right_def make_move_def opt_str_def relabel_cases Let_def
      del: relabel.simps split: prod.splits option.splits)

lemma breakout_left_as_make_move:
  "breakout_left api reg game_id plr =
     (if map_option (game_type api) (get_game reg game_id) = Some ''ALE/Breakout-v5''
      then map_prod (relabel ''Moved left: '' ''Action failed: '') id
             (make_move api reg game_id ''gym_step'' [(''action'', PyInt 3)] plr)
      else (Inr [Lit ''Breakout game '', Val (PyStr game_id), Lit '' not found''], reg))"
  by (simp add: breakout_left_def make_move_def opt_str_def relabel_cases Let_def
      del: relabel.simps split: prod.splits option.splits)

lemma gym_step_as_make_move:
  "gym_step api reg game_id action plr =
     map_prod (relabel ''Step successful: '' ''Step failed: '') id
       (make_move api reg game_id ''gym_step'' [(''action'', action)] plr)"
  by (simp add: gym_step_def make_move_def opt_str_def relabel_cases Let_def
      del: relabel.simps split: prod.splits option.splits)

text \<open>
  Claim C1, as amended. A convenience command that fixes a kind
  (\<^verbatim>\<open>tic_tac_toe_place_mark\<close>, the two CartPole commands, the three MountainCar
  commands, the four Breakout commands), called with the id of a live session of another
  kind, returns its message \<^verbatim>\<open><Label> game <id> not found\<close> and the registry as it was:
  no action reaches the session, whatever its \<^verbatim>\<open>make_move\<close> would do. There is no
  \<^verbatim>\<open>KindMismatch\<close> error. \<^verbatim>\<open>gym_step\<close> fixes no kind and checks none: on every id it
  does what \<^verbatim>\<open>make_move\<close> does with the tag \<^verbatim>\<open>gym_step\<close>, under its own prefixes.
\<close>

theorem wrong_kind_not_found:
  assumes "get_game reg game_id = Some game"
  shows "(game_type api game \<noteq> ''tic-tac-toe'' \<longrightarrow>
            tic_tac_toe_place_mark api reg game_id row col plr
              = (Inr [Lit ''Tic-tac-toe game '', Val (PyStr game_id), Lit '' not found''], reg))
       \<and> (game_type api game \<noteq> ''CartPole-v1'' \<longrightarrow>
            cartpole_move_left api reg game_id plr
              = (Inr [Lit ''CartPole game '', Val (PyStr game_id), Lit '' not found''], reg)
          \<and> cartpole_move_right api reg game_id plr
              = (Inr [Lit ''CartPole game '', Val (PyStr game_id), Lit '' not found''], reg))
       \<and> (game_type api game \<noteq> ''MountainCar-v0'' \<longrightarrow>
            mountain_car_push_left api reg game_id plr
              = (Inr [Lit ''MountainCar game '', Val (PyStr game_id), Lit '' not found''], reg)
          \<and> mountain_car_no_push api reg game_id plr
              = (Inr [Lit ''MountainCar game '', Val (PyStr game_id), Lit '' not found''], reg)
          \<and> mountain_car_push_right api reg game_id plr
              = (Inr [Lit ''MountainCar game '', Val (PyStr game_id), Lit '' not found''], reg))
       \<and> (game_type api game \<noteq> ''ALE/Breakout-v5'' \<longrightarrow>
            breakout_noop api reg game_id plr
              = (Inr [Lit ''Breakout game '', Val (PyStr game_id), Lit '' not found''], reg)
          \<and> breakout_fire api reg game_id plr
              = (Inr [Lit ''Breakout game '', Val (PyStr game_id), Lit '' not found''], reg)
          \<and> breakout_right api reg game_id plr
              = (Inr [Lit ''Breakout game '', Val (PyStr game_id), Lit '' not found''], reg)
          \<and> breakout_left api reg game_id plr
              = (Inr [Lit ''Breakout game '', Val (PyStr game_id), Lit '' not found''], reg))
       \<and> gym_step api reg game_id action plr
            = map_prod (relabel ''Step successful: '' ''Step failed: '') id
                (make_move api reg game_id ''gym_step'' [(''action'', action)] plr)"
proof -
  have "gym_step api reg game_id action plr
          = map_prod (relabel ''Step successful: '' ''Step failed: '') id
              (make_move api reg game_id ''gym_step'' [(''action'', action)] plr)"
    by (rule gym_step_as_make_move)
  moreover from assms have
    "game_type api game \<noteq> ''tic-tac-toe'' \<longrightarrow>
       tic_tac_toe_place_mark api reg game_id row col plr
         = (Inr [Lit ''Tic-tac-toe game '', Val (PyStr game_id), Lit '' not found''], reg)"
    by (simp add: tic_tac_toe_place_mark_def)
  moreover from assms have
    "game_type api game \<noteq> ''CartPole-v1'' \<longrightarrow>
       cartpole_move_left api reg game_id plr
         = (Inr [Lit ''CartPole game '', Val (PyStr game_id), Lit '' not found''], reg)
       \<and> cartpole_move_right api reg game_id plr
         = (Inr [Lit ''CartPole game '', Val (PyStr game_id), Lit '' not found''], reg)"
    by (simp add: cartpole_move_left_def cartpole_move_right_def)
  moreover from assms have
    "game_type api game \<noteq> ''MountainCar-v0'' \<longrightarrow>
       mountain_car_push_left api reg game_id plr
         = (Inr [Lit ''MountainCar game '', Val (PyStr game_id), Lit '' not found''], reg)
       \<and> mountain_car_no_push api reg game_id plr
         = (Inr [Lit ''MountainCar game '', Val (PyStr game_id), Lit '' not found''], reg)
       \<and> mountain_car_push_right api reg game_id plr
         = (Inr [Lit ''MountainCar game '', Val (PyStr game_id), Lit '' not found''], reg)"
    by (simp add: mountain_car_push_left_def mountain_car_no_push_def
        mountain_car_push_right_def)
  moreover from assms have
    "game_type api game \<noteq> ''ALE/Breakout-v5'' \<longrightarrow>
       breakout_noop api reg game_id plr
         = (Inr [Lit ''Breakout game '', Val (PyStr game_id), Lit '' not found''], reg)
       \<and> breakout_fire api reg game_id plr
         = (Inr [Lit ''Breakout game '', Val (PyStr game_id), Lit '' not found''], reg)
       \<and> breakout_right api reg game_id plr
         = (Inr [Lit ''Breakout game '', Val (PyStr game_id), Lit '' not found''], reg)
       \<and> breakout_left api reg game_id plr
         = (Inr [Lit ''Breakout game '', Val (PyStr game_id), Lit '' not found''], reg)"
    by (simp add: breakout_noop_def breakout_fire_def breakout_right_def breakout_left_def)
  ultimately show ?thesis by blast
qed

theorem wrong_kind_not_found_witness:
  "get_game two_sessions ''g1'' = Some board_session
   \<and> game_type demo_package board_session \<noteq> ''CartPole-v1''
   \<and> game_type demo_package board_session \<noteq> ''MountainCar-v0''
   \<and> game_type demo_package board_session \<noteq> ''ALE/Breakout-v5''
   \<and> cartpole_move_left demo_package two_sessions ''g1'' ''alice''
        = (Inr [Lit ''CartPole game '', Val (PyStr ''g1''), Lit '' not found''], two_sessions)
   \<and> mountain_car_no_push demo_package two_sessions ''g1'' ''alice''
        = (Inr [Lit ''MountainCar game '', Val (PyStr ''g1''), Lit '' not found''], two_sessions)
   \<and> breakout_fire demo_package two_sessions ''g1'' ''alice''
        = (Inr [Lit ''Breakout game '', Val (PyStr ''g1''), Lit '' not found''], two_sessions)
   \<and> get_game two_sessions ''g2'' = Some cartpole_session
   \<and> game_type demo_package cartpole_session \<noteq> ''tic-tac-toe''
   \<and> tic_tac_toe_place_mark demo_package two_sessions ''g2'' 0 0 ''carol''
        = (Inr [Lit ''Tic-tac-toe game '', Val (PyStr ''g2''), Lit '' not found''], two_sessions)"
  using g1_live g2_live
    wrong_kind_not_found [OF g1_live, of demo_package 0 0 "''alice''" PyNone]
    wrong_kind_not_found [OF g2_live, of demo_package 0 0 "''carol''" PyNone]
  by (simp add: demo_types)

text \<open>
  Claim C1 as stated fails. \<^verbatim>\<open>gym_step\<close> on the live tic-tac-toe session \<^verbatim>\<open>g1\<close> hands
  the action to the session: the reply is the failure that the session's own
  \<^verbatim>\<open>make_move\<close> returns, not a rejection by the command. And a command that fixes a kind
  answers a session of another kind exactly as it answers an id that is not live.
\<close>

theorem wrong_kind_counterexample:
  "map_option (game_type demo_package) (get_game two_sessions ''g1'') = Some ''tic-tac-toe''
   \<and> gym_step demo_package two_sessions ''g1'' (PyInt 0) ''alice''
       = (Inr [Lit ''Step failed: '',
               opt_str (error (fst (game_make_move demo_package board_session
                  \<lparr>action_type = ''gym_step'', payload = [(''action'', PyInt 0)],
                   player = ''alice''\<rparr>)))],
          two_sessions)
   \<and> map_sum id reply_text (fst (gym_step demo_package two_sessions ''g1'' (PyInt 0) ''alice''))
       = Inr (Some ''Step failed: IllegalAction'')
   \<and> map_sum id reply_text (fst (cartpole_move_left demo_package two_sessions ''g1'' ''alice''))
       = Inr (Some ''CartPole game g1 not found'')
   \<and> fst (cartpole_move_left demo_package two_sessions ''g1'' ''alice'')
       = fst (cartpole_move_left demo_package no_sessions ''g1'' ''alice'')"
  by (simp add: gym_step_def cartpole_move_left_def g1_live demo_types alice_steps_board
      failure_def opt_str_def store_game_def two_sessions_eq no_sessions_def get_game_def)

text \<open>
  Claim C2, as amended. On a live session of its kind a convenience command is
  \<^verbatim>\<open>make_move\<close> with the fixed tag and payload, up to the two message prefixes: the same
  registry afterwards, the same snapshot or error (or exception) in the reply, under the
  command's own prefix. On every other id a command that fixes a kind returns its own
  \<^verbatim>\<open><Label> game <id> not found\<close> and leaves the registry as it was. \<^verbatim>\<open>gym_step\<close>
  follows \<^verbatim>\<open>make_move\<close> on every id.
\<close>

theorem convenience_commands_relabel_make_move:
  "(tic_tac_toe_place_mark api reg game_id row col plr =
     (if map_option (game_type api) (get_game reg game_id) = Some ''tic-tac-toe''
      then map_prod (relabel ''Mark placed: '' ''Failed to place mark: '') id
             (make_move api reg game_id ''place_mark''
                [(''row'', PyInt row), (''col'', PyInt col)] plr)
      else (Inr [Lit ''Tic-tac-toe game '', Val (PyStr game_id), Lit '' not found''], reg)))
   \<and> (cartpole_move_left api reg game_id plr =
     (if map_option (game_type api) (get_game reg game_id) = Some ''CartPole-v1''
      then map_prod (relabel ''Moved left: '' ''Move failed: '') id
             (make_move api reg game_id ''gym_step'' [(''action'', PyInt 0)] plr)
      else (Inr [Lit ''CartPole game '', Val (PyStr game_id), Lit '' not found''], reg)))
   \<and> (cartpole_move_right api reg game_id plr =
     (if map_option (game_type api) (get_game reg game_id) = Some ''CartPole-v1''
      then map_prod (relabel ''Moved right: '' ''Move failed: '') id
             (make_move api reg game_id ''gym_step'' [(''action'', PyInt 1)] plr)
      else (Inr [Lit ''CartPole game '', Val (PyStr game_id), Lit '' not found''], reg)))
   \<and> (mountain_car_push_left api reg game_id plr =
     (if map_option (game_type api) (get_game reg game_id) = Some ''MountainCar-v0''
      then map_prod (relabel ''Pushed left: '' ''Move failed: '') id
             (make_move api reg game_id ''gym_step'' [(''action'', PyInt 0)] plr)
      else (Inr [Lit ''MountainCar game '', Val (PyStr game_id), Lit '' not found''], reg)))
   \<and> (mountain_car_no_push api reg game_id plr =
     (if map_option (game_type api) (get_game reg game_id) = Some ''MountainCar-v0''
      then map_prod (relabel ''No push: '' ''Move failed: '') id
             (make_move api reg game_id ''gym_step'' [(''action'', PyInt 1)] plr)
      else (Inr [Lit ''MountainCar game '', Val (PyStr game_id), Lit '' not found''], reg)))
   \<and> (mountain_car_push_right api reg game_id plr =
     (if map_option (game_type api) (get_game reg game_id) = Some ''MountainCar-v0''
      then map_prod (relabel ''Pushed right: '' ''Move failed: '') id
             (make_move api reg game_id ''gym_step'' [(''action'', PyInt 2)] plr)
      else (Inr [Lit ''MountainCar game '', Val (PyStr game_id), Lit '' not found''], reg)))
   \<and> (breakout_noop api reg game_id plr =
     (if map_option (game_type api) (get_game reg game_id) = Some ''ALE/Breakout-v5''
      then map_prod (relabel ''No-op: '' ''Action failed: '') id
             (make_move api reg game_id ''gym_step'' [(''action'', PyInt 0)] plr)
      else (Inr [Lit ''Breakout game '', Val (PyStr game_id), Lit '' not found''], reg)))
   \<and> (breakout_fire api reg game_id plr =
     (if map_option (game_type api) (get_game reg game_id) = Some ''ALE/Breakout-v5''
      then map_prod (relabel ''Fired: '' ''Action failed: '') id
             (make_move api reg game_id ''gym_step'' [(''action'', PyInt 1)] plr)
      else (Inr [Lit ''Breakout game '', Val (PyStr game_id), Lit '' not found''], reg)))
   \<and> (breakout_right api reg game_id plr =
     (if map_option (game_type api) (get_game reg game_id) = Some ''ALE/Breakout-v5''
      then map_prod (relabel ''Moved right: '' ''Action failed: '') id
             (make_move api reg game_id ''gym_step'' [(''action'', PyInt 2)] plr)
      else (Inr [Lit ''Breakout game '', Val (PyStr game_id), Lit '' not found''], reg)))
   \<and> (breakout_left api reg game_id plr =
     (if map_option (game_type api) (get_game reg game_id) = Some ''ALE/Breakout-v5''
      then map_prod (relabel ''Moved left: '' ''Action failed: '') id
             (make_move api reg game_id ''gym_step'' [(''action'', PyInt 3)] plr)
      else (Inr [Lit ''Breakout game '', Val (PyStr game_id), Lit '' not found''], reg)))
   \<and> (gym_step api reg game_id action plr =
     map_prod (relabel ''Step successful: '' ''Step failed: '') id
       (make_move api reg game_id ''gym_step'' [(''action'', action)] plr))"
  by (intro conjI)
    (rule tic_tac_toe_place_mark_as_make_move
       cartpole_move_left_as_make_move
       cartpole_move_right_as_make_move
       mountain_car_push_left_as_make_move
       mountain_car_no_push_as_make_move
       mountain_car_push_right_as_make_move
       breakout_noop_as_make_move
       breakout_fire_as_make_move
       breakout_right_as_make_move
       breakout_left_as_make_move
       gym_step_as_make_move)+

theorem convenience_commands_relabel_make_move_witness:
  "map_option (game_type demo_package) (get_game two_sessions ''g1'') = Some ''tic-tac-toe''
   \<and> tic_tac_toe_place_mark demo_package two_sessions ''g1'' 0 0 ''bob''
       = map_prod (relabel ''Mark placed: '' ''Failed to place mark: '') id
           (make_move demo_package two_sessions ''g1'' ''place_mark''
              [(''row'', PyInt 0), (''col'', PyInt 0)] ''bob'')
   \<and> map_option (game_type demo_package) (get_game two_sessions ''g2'') = Some ''CartPole-v1''
   \<and> cartpole_move_left demo_package two_sessions ''g2'' ''carol''
       = map_prod (relabel ''Moved left: '' ''Move failed: '') id
           (make_move demo_package two_sessions ''g2'' ''gym_step''
              [(''action'', PyInt 0)] ''carol'')"
  using convenience_commands_relabel_make_move
    [of demo_package two_sessions "''g1''" 0 0 "''bob''" PyNone]
    convenience_commands_relabel_make_move
    [of demo_package two_sessions "''g2''" 0 0 "''carol''" PyNone]
  by (simp add: g1_live g2_live demo_types)

text \<open>
  Claim C2 as stated fails: on an id that is not live the two messages differ; on a live
  tic-tac-toe session a rejected placement is reported under different prefixes; on a live
  CartPole session the same snapshot is reported under different prefixes.
\<close>

theorem convenience_commands_counterexample:
  "map_sum id reply_text (fst (tic_tac_toe_place_mark demo_package two_sessions ''g9'' 0 0 ''alice''))
     = Inr (Some ''Tic-tac-toe game g9 not found'')
   \<and> map_sum id reply_text
        (fst (make_move demo_package two_sessions ''g9'' ''place_mark''
                [(''row'', PyInt 0), (''col'', PyInt 0)] ''alice''))
     = Inr (Some ''Game g9 not found'')
   \<and> map_option (game_type demo_package) (get_game two_sessions ''g1'') = Some ''tic-tac-toe''
   \<and> map_sum id reply_text (fst (tic_tac_toe_place_mark demo_package two_sessions ''g1'' 0 0 ''bob''))
     = Inr (Some ''Failed to place mark: IllegalAction'')
   \<and> map_sum id reply_text
        (fst (make_move demo_package two_sessions ''g1'' ''place_mark''
                [(''row'', PyInt 0), (''col'', PyInt 0)] ''bob''))
     = Inr (Some ''Move failed: IllegalAction'')
   \<and> map_option (game_type demo_package) (get_game two_sessions ''g2'') = Some ''CartPole-v1''
   \<and> (\<exists>s. fst (cartpole_move_left demo_package two_sessions ''g2'' ''carol'')
              = Inr [Lit ''Moved left: '', Dump s]
          \<and> fst (make_move demo_package two_sessions ''g2'' ''gym_step''
                    [(''action'', PyInt 0)] ''carol'')
              = Inr [Lit ''Move successful: '', Dump s])"
  by (simp add: tic_tac_toe_place_mark_def cartpole_move_left_def make_move_def
      g1_live g2_live g9_not_live demo_types bob_out_of_turn carol_moves_left
      ok_def failure_def opt_str_def)

subsection \<open>The core commands\<close>

text \<open>
  Claim C3. For a session id that is not in the live-session map of the registry,
  \<^verbatim>\<open>make_move\<close>, \<^verbatim>\<open>get_game_state\<close> and \<^verbatim>\<open>reset_game\<close> each return the
  not-found message naming that id (\<^verbatim>\<open>Game <id> not found\<close>), and the registry with
  all its sessions is returned as it was.
\<close>

theorem unknown_id_not_found:
  assumes "game_id \<notin> fst ` set (games reg)"
  shows "\<exists>r. make_move api reg game_id atype pl plr = (Inr r, reg)
           \<and> get_game_state api reg game_id = (Inr r, reg)
           \<and> reset_game api reg game_id = (Inr r, reg)
           \<and> r = [Lit ''Game '', Val (PyStr game_id), Lit '' not found'']
           \<and> reply_text r = Some (''Game '' @ game_id @ '' not found'')"
proof -
  from assms have "get_game reg game_id = None"
    by (simp add: get_game_def map_of_eq_None_iff)
  then show ?thesis
    by (simp add: make_move_def get_game_state_def reset_game_def)
qed

theorem unknown_id_not_found_witness:
  "''g9'' \<notin> fst ` set (games two_sessions)
   \<and> (\<exists>r. make_move demo_package two_sessions ''g9'' ''place_mark'' [] ''alice''
             = (Inr r, two_sessions)
           \<and> get_game_state demo_package two_sessions ''g9'' = (Inr r, two_sessions)
           \<and> reset_game demo_package two_sessions ''g9'' = (Inr r, two_sessions)
           \<and> r = [Lit ''Game '', Val (PyStr ''g9''), Lit '' not found'']
           \<and> reply_text r = Some ''Game g9 not found'')"
proof -
  have h: "''g9'' \<notin> fst ` set (games two_sessions)"
    by (simp add: two_sessions_games)
  show ?thesis
    using h unknown_id_not_found [OF h, of demo_package "''place_mark''" "[]" "''alice''"]
    by simp
qed


lemma demo_unknown_kind:
  "create_game demo_package two_sessions ''chess'' None = (failure ''UnknownKind'', two_sessions)"
  by (simp add: demo_package_def games_package_def registry_create_game_def counting_world_def)

lemma demo_duplicate_id:
  "create_game demo_package two_sessions ''tic-tac-toe'' (Some ''g1'')
     = (failure ''DuplicateId'', two_sessions)"
  by (simp add: demo_package_def games_package_def registry_create_game_def counting_world_def
      two_sessions_games)

text \<open>
  Claim C4. When the creation of the session fails (the result of \<^verbatim>\<open>create_game\<close> has
  no success), \<^verbatim>\<open>start_game\<close> returns that creation error under the prefix
  \<^verbatim>\<open>Error: \<close> with the registry as \<^verbatim>\<open>create_game\<close> left it, and \<^verbatim>\<open>start\<close> is
  called on no session: the outcome is the same for every implementation of \<^verbatim>\<open>start\<close>.
\<close>

theorem start_game_creation_failure:
  assumes "create_game api reg kind_name opt_id = (result, reg1)"
    and "\<not> success result"
  shows "start_game api reg kind_name ps opt_id
           = (Inr [Lit ''Error: '', opt_str (error result)], reg1)
       \<and> start_game (api\<lparr>game_start := other_start\<rparr>) reg kind_name ps opt_id
           = start_game api reg kind_name ps opt_id"
  using assms by (simp add: start_game_def)

theorem start_game_creation_failure_witness:
  "create_game demo_package two_sessions ''chess'' None = (failure ''UnknownKind'', two_sessions)
   \<and> \<not> success (failure ''UnknownKind'' :: nat list snapshot game_result)
   \<and> start_game demo_package two_sessions ''chess'' [''alice'', ''bob''] None
       = (Inr [Lit ''Error: '', Val (PyStr ''UnknownKind'')], two_sessions)
   \<and> create_game demo_package two_sessions ''tic-tac-toe'' (Some ''g1'')
       = (failure ''DuplicateId'', two_sessions)
   \<and> \<not> success (failure ''DuplicateId'' :: nat list snapshot game_result)
   \<and> start_game demo_package two_sessions ''tic-tac-toe'' [''alice'', ''bob''] (Some ''g1'')
       = (Inr [Lit ''Error: '', Val (PyStr ''DuplicateId'')], two_sessions)"
proof -
  have f1: "\<not> success (failure ''UnknownKind'' :: nat list snapshot game_result)"
    and f2: "\<not> success (failure ''DuplicateId'' :: nat list snapshot game_result)"
    by (simp_all add: failure_def)
  show ?thesis
    using demo_unknown_kind demo_duplicate_id f1 f2
      start_game_creation_failure [OF demo_unknown_kind f1, of "[''alice'', ''bob'']"]
      start_game_creation_failure [OF demo_duplicate_id f2, of "[''alice'', ''bob'']"]
    by (simp add: failure_def opt_str_def)
qed

text \<open>
  Claim C5. For every \<^verbatim>\<open>show_active\<close>, the dict that \<^verbatim>\<open>list_games\<close> formats holds
  the available kinds under \<^verbatim>\<open>available_games\<close>, and holds the listing of the active
  sessions, under \<^verbatim>\<open>active_games\<close>, exactly when \<^verbatim>\<open>show_active\<close> is true; the
  registry is not changed.
\<close>

theorem list_games_contents:
  "\<exists>d. list_games api reg show_active = (Inr [Lit ''Games: '', Val (PyDict d)], reg)
      \<and> map fst d = ''available_games'' # (if show_active then [''active_games''] else [])
      \<and> map_of d ''available_games'' = Some (get_available_games api reg)
      \<and> map_of d ''active_games''
          = (if show_active then Some (get_active_games api reg) else None)"
  by (simp add: list_games_def)

theorem list_games_contents_witness:
  "(\<exists>d. list_games demo_package two_sessions True = (Inr [Lit ''Games: '', Val (PyDict d)], two_sessions)
      \<and> map fst d = [''available_games'', ''active_games'']
      \<and> map_of d ''available_games''
          = Some (PyList [PyStr ''tic-tac-toe'', PyStr ''CartPole-v1'', PyStr ''MountainCar-v0'',
                          PyStr ''ALE/Breakout-v5''])
      \<and> map_of d ''active_games''
          = Some (PyDict [(''g1'', PyTuple [PyStr ''tic-tac-toe'', PyStr ''in_progress'']),
                          (''g2'', PyTuple [PyStr ''CartPole-v1'', PyStr ''in_progress''])]))
   \<and> (\<exists>d. list_games demo_package two_sessions False
             = (Inr [Lit ''Games: '', Val (PyDict d)], two_sessions)
      \<and> map fst d = [''available_games'']
      \<and> map_of d ''available_games''
          = Some (PyList [PyStr ''tic-tac-toe'', PyStr ''CartPole-v1'', PyStr ''MountainCar-v0'',
                          PyStr ''ALE/Breakout-v5''])
      \<and> map_of d ''active_games'' = None)"
proof -
  have a: "get_available_games demo_package two_sessions
             = PyList [PyStr ''tic-tac-toe'', PyStr ''CartPole-v1'', PyStr ''MountainCar-v0'',
                       PyStr ''ALE/Breakout-v5'']"
    by (simp add: demo_package_def games_package_def registry_get_available_games_def
        counting_world_def)
  have b: "get_active_games demo_package two_sessions
             = PyDict [(''g1'', PyTuple [PyStr ''tic-tac-toe'', PyStr ''in_progress'']),
                       (''g2'', PyTuple [PyStr ''CartPole-v1'', PyStr ''in_progress''])]"
    by (simp add: demo_package_def games_package_def registry_get_active_games_def
        two_sessions_games board_session_def cartpole_session_def status_name_def)
  show ?thesis
    using list_games_contents [of demo_package two_sessions True]
      list_games_contents [of demo_package two_sessions False]
    by (simp add: a b)
qed

subsection \<open>The games package behind the handlers\<close>

lemma store_game_same: "get_game reg i = Some g \<Longrightarrow> store_game reg i g = reg"
  by (simp add: get_game_def store_game_def AList.update_triv)

lemma get_game_store: "get_game (store_game reg i g) i = Some g"
  by (simp add: get_game_def store_game_def AList.update_conv')

lemma well_formed_ok: "well_formed (ok s)"
  by (simp add: well_formed_def ok_def)

lemma well_formed_failure: "well_formed (failure e)"
  by (simp add: well_formed_def failure_def)

lemma session_start_cases:
  "session_start w g ps = (failure ''InvalidPlayers'', g)
   \<or> (\<exists>g'. session_start w g ps = (ok (session_get_state g'), g'))"
  by (simp add: session_start_def Let_def)

lemma board_place_cases:
  "board_place g b a = (failure ''IllegalAction'', g)
   \<or> (\<exists>g'. board_place g b a = (ok (session_get_state g'), g'))"
  by (simp add: board_place_def Let_def split: option.splits)

lemma sim_step_cases:
  "sim_step w g s a = (failure ''IllegalAction'', g)
   \<or> sim_step w g s a = (failure ''EnvironmentFault'', g)
   \<or> (\<exists>g'. sim_step w g s a = (ok (session_get_state g'), g'))"
  by (simp add: sim_step_def Let_def split: option.splits)

lemma session_make_move_cases:
  "session_make_move w g a = (failure ''IllegalAction'', g)
   \<or> session_make_move w g a = (failure ''EnvironmentFault'', g)
   \<or> (\<exists>g'. session_make_move w g a = (ok (session_get_state g'), g'))"
proof (cases "body g")
  case (Board b)
  with board_place_cases [of g b a] show ?thesis
    by (auto simp add: session_make_move_def)
next
  case (Sim s)
  with sim_step_cases [of w g s a] show ?thesis
    by (auto simp add: session_make_move_def)
qed

lemma session_reset_ok:
  "\<exists>g'. session_reset w g = (ok (session_get_state g'), g')"
  by (simp add: session_reset_def Let_def)

lemma registry_create_game_cases:
  "registry_create_game w reg k i = (failure ''UnknownKind'', reg)
   \<or> registry_create_game w reg k i = (failure ''DuplicateId'', reg)
   \<or> (\<exists>g. registry_create_game w reg k i
              = (ok (session_get_state g), reg\<lparr>games := AList.update (session_id g) g (games reg)\<rparr>)
          \<and> status g = Pending \<and> players g = [] \<and> session_type g = k
          \<and> session_id g = (case i of None \<Rightarrow> new_id w (map fst (games reg)) | Some x \<Rightarrow> x))"
  by (cases i) (auto simp add: registry_create_game_def Let_def split: option.splits)

lemma package_fields:
  "create_game (games_package w) = registry_create_game w"
  "game_type (games_package w) = session_type"
  "game_start (games_package w) = session_start w"
  "game_make_move (games_package w) = session_make_move w"
  "game_get_state (games_package w) = (\<lambda>g. (session_get_state g, g))"
  "game_reset (games_package w) = session_reset w"
  "state_id (games_package w) = snap_id"
  by (simp_all add: games_package_def)

lemma make_move_package_cases:
  "make_move (games_package w) reg game_id atype pl plr
     = (Inr [Lit ''Game '', Val (PyStr game_id), Lit '' not found''], reg)
   \<or> (\<exists>e. make_move (games_package w) reg game_id atype pl plr
            = (Inr [Lit ''Move failed: '', Val (PyStr e)], reg))
   \<or> (\<exists>g'. make_move (games_package w) reg game_id atype pl plr
            = (Inr [Lit ''Move successful: '', Dump (session_get_state g')],
               store_game reg game_id g'))"
proof (cases "get_game reg game_id")
  case None
  then show ?thesis by (simp add: make_move_def)
next
  case (Some g)
  with session_make_move_cases
         [of w g "\<lparr>action_type = atype, payload = pl, player = plr\<rparr>"]
  show ?thesis
    by (auto simp add: make_move_def package_fields ok_def failure_def opt_str_def
        store_game_same)
qed

lemma reset_game_package_cases:
  "reset_game (games_package w) reg game_id
     = (Inr [Lit ''Game '', Val (PyStr game_id), Lit '' not found''], reg)
   \<or> (\<exists>g'. reset_game (games_package w) reg game_id
            = (Inr [Lit ''Game reset: '', Dump (session_get_state g')],
               store_game reg game_id g'))"
proof (cases "get_game reg game_id")
  case None
  then show ?thesis by (simp add: reset_game_def)
next
  case (Some g)
  with session_reset_ok [of w g] show ?thesis
    by (auto simp add: reset_game_def package_fields ok_def)
qed

lemma get_game_state_package:
  "get_game reg game_id = Some g \<Longrightarrow>
   get_game_state (games_package w) reg game_id
     = (Inr [Lit ''Game state: '', Dump (session_get_state g)], reg)"
  by (simp add: get_game_state_def package_fields store_game_same)

lemma start_game_package_cases:
  "(\<exists>e. start_game (games_package w) reg k ps i = (Inr [Lit ''Error: '', Val (PyStr e)], reg))
   \<or> (\<exists>e reg1. start_game (games_package w) reg k ps i
                 = (Inr [Lit ''Error starting game: '', Val (PyStr e)], reg1))
   \<or> (\<exists>g' reg2. start_game (games_package w) reg k ps i
                 = (Inr [Lit ''Game started: '', Dump (session_get_state g')], reg2)
               \<and> get_game reg2 (session_id g') = Some g')"
proof -
  consider
    (unknown) "registry_create_game w reg k i = (failure ''UnknownKind'', reg)"
  | (dup) "registry_create_game w reg k i = (failure ''DuplicateId'', reg)"
  | (created) g where
      "registry_create_game w reg k i
         = (ok (session_get_state g), reg\<lparr>games := AList.update (session_id g) g (games reg)\<rparr>)"
    using registry_create_game_cases [of w reg k i] by blast
  then show ?thesis
  proof cases
    case unknown
    then show ?thesis
      by (simp add: start_game_def package_fields failure_def opt_str_def)
  next
    case dup
    then show ?thesis
      by (simp add: start_game_def package_fields failure_def opt_str_def)
  next
    case created
    let ?reg1 = "reg\<lparr>games := AList.update (session_id g) g (games reg)\<rparr>"
    have look: "get_game ?reg1 (session_id g) = Some g"
      by (simp add: get_game_def AList.update_conv')
    have sid: "snap_id (session_get_state g) = session_id g"
      by (simp add: session_get_state_def)
    from session_start_cases [of w g ps] show ?thesis
    proof
      assume "session_start w g ps = (failure ''InvalidPlayers'', g)"
      with created look sid show ?thesis
        by (simp add: start_game_def package_fields ok_def failure_def opt_str_def)
    next
      assume "\<exists>g'. session_start w g ps = (ok (session_get_state g'), g')"
      then obtain g' where st: "session_start w g ps = (ok (session_get_state g'), g')" ..
      have ids: "session_id g' = session_id g"
        using st by (auto simp add: session_start_def Let_def ok_def failure_def
            split: if_splits)
      from created look sid st have
        "start_game (games_package w) reg k ps i
           = (Inr [Lit ''Game started: '', Dump (session_get_state g')],
              store_game ?reg1 (session_id g) g')"
        by (simp add: start_game_def package_fields ok_def)
      moreover have "get_game (store_game ?reg1 (session_id g) g') (session_id g') = Some g'"
        using get_game_store [of ?reg1 "session_id g" g'] ids by simp
      ultimately show ?thesis by blast
    qed
  qed
qed

lemma counting_reset: "env_reset counting_world e = ([0], 0)"
  by (simp add: counting_world_def)

text \<open>
  Claim C7. Every result that a mutating operation of the games package returns
  (\<^verbatim>\<open>start\<close>, \<^verbatim>\<open>make_move\<close>, \<^verbatim>\<open>reset\<close>, and \<^verbatim>\<open>create_game\<close>) has exactly one
  of snapshot and error populated: with \<^verbatim>\<open>success\<close> a snapshot and no error, without
  it an error and no snapshot. So the handlers \<^verbatim>\<open>start_game\<close>, \<^verbatim>\<open>make_move\<close> and
  \<^verbatim>\<open>reset_game\<close> never read an attribute of a missing snapshot.
\<close>

theorem results_well_formed:
  "well_formed (fst (game_start (games_package w) g ps))
   \<and> well_formed (fst (game_make_move (games_package w) g a))
   \<and> well_formed (fst (game_reset (games_package w) g))
   \<and> well_formed (fst (create_game (games_package w) reg k i))
   \<and> fst (start_game (games_package w) reg k ps i) \<noteq> Inl AttributeError
   \<and> fst (make_move (games_package w) reg game_id atype pl plr) \<noteq> Inl AttributeError
   \<and> fst (reset_game (games_package w) reg game_id) \<noteq> Inl AttributeError"
proof -
  have "well_formed (fst (session_start w g ps))"
    using session_start_cases [of w g ps]
    by (auto simp add: well_formed_ok well_formed_failure)
  moreover have "well_formed (fst (session_make_move w g a))"
    using session_make_move_cases [of w g a]
    by (auto simp add: well_formed_ok well_formed_failure)
  moreover have "well_formed (fst (session_reset w g))"
    using session_reset_ok [of w g] by (auto simp add: well_formed_ok)
  moreover have "well_formed (fst (registry_create_game w reg k i))"
    using registry_create_game_cases [of w reg k i]
    by (auto simp add: well_formed_ok well_formed_failure)
  moreover have "fst (start_game (games_package w) reg k ps i) \<noteq> Inl AttributeError"
    using start_game_package_cases [of w reg k ps i] by auto
  moreover have
    "fst (make_move (games_package w) reg game_id atype pl plr) \<noteq> Inl AttributeError"
    using make_move_package_cases [of w reg game_id atype pl plr] by auto
  moreover have "fst (reset_game (games_package w) reg game_id) \<noteq> Inl AttributeError"
    using reset_game_package_cases [of w reg game_id] by auto
  ultimately show ?thesis by (simp add: package_fields)
qed

theorem results_well_formed_witness:
  "well_formed (fst (game_make_move demo_package cartpole_session
      \<lparr>action_type = ''gym_step'', payload = [(''action'', PyInt 0)], player = ''carol''\<rparr>))
   \<and> success (fst (game_make_move demo_package cartpole_session
      \<lparr>action_type = ''gym_step'', payload = [(''action'', PyInt 0)], player = ''carol''\<rparr>))
   \<and> well_formed (fst (game_make_move demo_package board_session
      \<lparr>action_type = ''place_mark'', payload = [(''row'', PyInt 0), (''col'', PyInt 0)],
       player = ''bob''\<rparr>))
   \<and> \<not> success (fst (game_make_move demo_package board_session
      \<lparr>action_type = ''place_mark'', payload = [(''row'', PyInt 0), (''col'', PyInt 0)],
       player = ''bob''\<rparr>))"
  using results_well_formed [of counting_world cartpole_session "[]"
      "\<lparr>action_type = ''gym_step'', payload = [(''action'', PyInt 0)], player = ''carol''\<rparr>"]
    results_well_formed [of counting_world board_session "[]"
      "\<lparr>action_type = ''place_mark'', payload = [(''row'', PyInt 0), (''col'', PyInt 0)],
        player = ''bob''\<rparr>"]
  by (simp add: carol_moves_left bob_out_of_turn ok_def failure_def flip: demo_package_def)

text \<open>
  Claim C6. For the id of a live session \<^verbatim>\<open>reset_game\<close> succeeds: the reply is
  \<^verbatim>\<open>Game reset: \<close> with the snapshot of the session after the reset, which keeps id,
  kind and players and shows the starting configuration of the kind: a pending board game
  with an empty grid and the turn at the first player, or a simulation in progress with the
  observation of the environment's reset and no reward. The \<^verbatim>\<open>Reset failed\<close> branch is
  not taken.
\<close>

theorem reset_game_live_succeeds:
  assumes "get_game reg game_id = Some g"
  shows "\<exists>s g'. reset_game (games_package w) reg game_id
                  = (Inr [Lit ''Game reset: '', Dump s], store_game reg game_id g')
           \<and> s = session_get_state g'
           \<and> snap_id s = session_id g \<and> snap_type s = session_type g
           \<and> snap_players s = players g
           \<and> (case body g of
                 Board b \<Rightarrow> snap_status s = Pending \<and> snap_view s = BoardView empty_board
               | Sim sm \<Rightarrow>
                   snap_status s = InProgress
                   \<and> snap_view s = SimView (Some (fst (env_reset w (env sm)))) 0 0 False)"
proof -
  obtain g' where r: "session_reset w g = (ok (session_get_state g'), g')"
    using session_reset_ok [of w g] by blast
  have keep: "session_id g' = session_id g \<and> session_type g' = session_type g
                \<and> players g' = players g"
    using r by (auto simp add: session_reset_def Let_def ok_def split: body.splits prod.splits)
  have fresh:
    "case body g of
       Board b \<Rightarrow> status g' = Pending \<and> body g' = Board empty_board
     | Sim sm \<Rightarrow>
         status g' = InProgress
         \<and> (\<exists>e. body g' = Sim \<lparr>env = e, n_actions = n_actions sm,
                                 observation = Some (fst (env_reset w (env sm))),
                                 last_reward = 0, total_reward = 0, episode_done = False\<rparr>)"
    using r by (auto simp add: session_reset_def Let_def ok_def split: body.splits prod.splits)
  have "reset_game (games_package w) reg game_id
          = (Inr [Lit ''Game reset: '', Dump (session_get_state g')], store_game reg game_id g')"
    using assms r by (simp add: reset_game_def package_fields ok_def)
  moreover have "snap_id (session_get_state g') = session_id g
                 \<and> snap_type (session_get_state g') = session_type g
                 \<and> snap_players (session_get_state g') = players g"
    using keep by (simp add: session_get_state_def)
  moreover have
    "case body g of
       Board b \<Rightarrow> snap_status (session_get_state g') = Pending
                  \<and> snap_view (session_get_state g') = BoardView empty_board
     | Sim sm \<Rightarrow>
         snap_status (session_get_state g') = InProgress
         \<and> snap_view (session_get_state g')
             = SimView (Some (fst (env_reset w (env sm)))) 0 0 False"
    using fresh by (auto simp add: session_get_state_def split: body.splits)
  ultimately show ?thesis by blast
qed

theorem reset_game_live_succeeds_witness:
  "get_game two_sessions ''g1'' = Some board_session
   \<and> (\<exists>s g'. reset_game demo_package two_sessions ''g1''
                  = (Inr [Lit ''Game reset: '', Dump s], store_game two_sessions ''g1'' g')
           \<and> snap_id s = ''g1'' \<and> snap_type s = ''tic-tac-toe''
           \<and> snap_players s = [''alice'', ''bob'']
           \<and> snap_status s = Pending \<and> snap_view s = BoardView empty_board)
   \<and> get_game two_sessions ''g2'' = Some cartpole_session
   \<and> (\<exists>s g'. reset_game demo_package two_sessions ''g2''
                  = (Inr [Lit ''Game reset: '', Dump s], store_game two_sessions ''g2'' g')
           \<and> snap_id s = ''g2'' \<and> snap_type s = ''CartPole-v1''
           \<and> snap_players s = [''carol'']
           \<and> snap_status s = InProgress \<and> snap_view s = SimView (Some [0]) 0 0 False)"
proof -
  have "\<exists>s g'. reset_game demo_package two_sessions ''g1''
                  = (Inr [Lit ''Game reset: '', Dump s], store_game two_sessions ''g1'' g')
           \<and> snap_id s = ''g1'' \<and> snap_type s = ''tic-tac-toe''
           \<and> snap_players s = [''alice'', ''bob'']
           \<and> snap_status s = Pending \<and> snap_view s = BoardView empty_board"
    using reset_game_live_succeeds [OF g1_live, of counting_world]
    by (simp add: board_session_def flip: demo_package_def) blast
  moreover have
    "\<exists>s g'. reset_game demo_package two_sessions ''g2''
                  = (Inr [Lit ''Game reset: '', Dump s], store_game two_sessions ''g2'' g')
           \<and> snap_id s = ''g2'' \<and> snap_type s = ''CartPole-v1''
           \<and> snap_players s = [''carol'']
           \<and> snap_status s = InProgress \<and> snap_view s = SimView (Some [0]) 0 0 False"
    using reset_game_live_succeeds [OF g2_live, of counting_world]
    by (simp add: cartpole_session_def counting_reset flip: demo_package_def) blast
  ultimately show ?thesis
    using g1_live g2_live by simp
qed

text \<open>
  Claim C8. For the id of a live session \<^verbatim>\<open>get_game_state\<close> does not fail: it replies
  \<^verbatim>\<open>Game state: \<close> with the snapshot of the session that the registry holds, and the
  registry with that session is returned as it was. The snapshot is the latest committed
  one: after a successful \<^verbatim>\<open>make_move\<close> or \<^verbatim>\<open>reset_game\<close> on that id it is the
  snapshot that the call reported, and a failed \<^verbatim>\<open>make_move\<close> changes nothing.
\<close>

theorem get_game_state_latest:
  assumes "get_game reg game_id = Some g"
  shows "get_game_state (games_package w) reg game_id
           = (Inr [Lit ''Game state: '', Dump (session_get_state g)], reg)
       \<and> (\<forall>s reg'. make_move (games_package w) reg game_id atype pl plr
                      = (Inr [Lit ''Move successful: '', Dump s], reg')
              \<longrightarrow> get_game_state (games_package w) reg' game_id
                    = (Inr [Lit ''Game state: '', Dump s], reg'))
       \<and> (\<forall>e reg'. make_move (games_package w) reg game_id atype pl plr
                      = (Inr [Lit ''Move failed: '', e], reg')
              \<longrightarrow> reg' = reg)
       \<and> (\<forall>s reg'. reset_game (games_package w) reg game_id
                      = (Inr [Lit ''Game reset: '', Dump s], reg')
              \<longrightarrow> get_game_state (games_package w) reg' game_id
                    = (Inr [Lit ''Game state: '', Dump s], reg'))"
proof -
  have now: "get_game_state (games_package w) reg game_id
               = (Inr [Lit ''Game state: '', Dump (session_get_state g)], reg)"
    using assms by (rule get_game_state_package)
  have stored: "get_game_state (games_package w) (store_game reg game_id g') game_id
                  = (Inr [Lit ''Game state: '', Dump (session_get_state g')],
                     store_game reg game_id g')" for g'
    using get_game_store [of reg game_id g'] by (rule get_game_state_package)
  have moved: "get_game_state (games_package w) reg' game_id
                 = (Inr [Lit ''Game state: '', Dump s], reg')"
    if "make_move (games_package w) reg game_id atype pl plr
          = (Inr [Lit ''Move successful: '', Dump s], reg')" for s reg'
    using make_move_package_cases [of w reg game_id atype pl plr] that stored by auto
  have failed: "reg' = reg"
    if "make_move (games_package w) reg game_id atype pl plr
          = (Inr [Lit ''Move failed: '', e], reg')" for e reg'
    using make_move_package_cases [of w reg game_id atype pl plr] that by auto
  have reset: "get_game_state (games_package w) reg' game_id
                 = (Inr [Lit ''Game state: '', Dump s], reg')"
    if "reset_game (games_package w) reg game_id
          = (Inr [Lit ''Game reset: '', Dump s], reg')" for s reg'
    using reset_game_package_cases [of w reg game_id] that stored by auto
  from now moved failed reset show ?thesis by blast
qed

theorem get_game_state_latest_witness:
  "get_game two_sessions ''g2'' = Some cartpole_session
   \<and> get_game_state demo_package two_sessions ''g2''
       = (Inr [Lit ''Game state: '',
               Dump \<lparr>snap_id = ''g2'', snap_type = ''CartPole-v1'', snap_players = [''carol''],
                     snap_status = InProgress, snap_view = SimView (Some [0]) 0 0 False\<rparr>],
          two_sessions)
   \<and> (\<exists>reg'. make_move demo_package two_sessions ''g2'' ''gym_step'' [(''action'', PyInt 0)]
                 ''carol''
               = (Inr [Lit ''Move successful: '',
                       Dump \<lparr>snap_id = ''g2'', snap_type = ''CartPole-v1'',
                             snap_players = [''carol''], snap_status = InProgress,
                             snap_view = SimView (Some [1, 0]) 1 1 False\<rparr>], reg')
          \<and> get_game_state demo_package reg' ''g2''
               = (Inr [Lit ''Game state: '',
                       Dump \<lparr>snap_id = ''g2'', snap_type = ''CartPole-v1'',
                             snap_players = [''carol''], snap_status = InProgress,
                             snap_view = SimView (Some [1, 0]) 1 1 False\<rparr>], reg'))"
proof -
  let ?s = "\<lparr>snap_id = ''g2'', snap_type = ''CartPole-v1'', snap_players = [''carol''],
             snap_status = InProgress, snap_view = SimView (Some [1, 0]) 1 1 False\<rparr>
            :: nat list snapshot"
  obtain reg' where
    m: "make_move demo_package two_sessions ''g2'' ''gym_step'' [(''action'', PyInt 0)] ''carol''
          = (Inr [Lit ''Move successful: '', Dump ?s], reg')"
    by (simp add: make_move_def g2_live carol_moves_left ok_def)
  note t = get_game_state_latest [OF g2_live, of counting_world "''gym_step''"
      "[(''action'', PyInt 0)]" "''carol''", folded demo_package_def]
  from t have "get_game_state demo_package two_sessions ''g2''
       = (Inr [Lit ''Game state: '',
               Dump \<lparr>snap_id = ''g2'', snap_type = ''CartPole-v1'', snap_players = [''carol''],
                     snap_status = InProgress, snap_view = SimView (Some [0]) 0 0 False\<rparr>],
          two_sessions)"
    by (simp add: session_get_state_def cartpole_session_def)
  moreover from t m have "get_game_state demo_package reg' ''g2''
       = (Inr [Lit ''Game state: '', Dump ?s], reg')"
    by blast
  ultimately show ?thesis using g2_live m by blast
qed

lemma start_game_start_failure:
  assumes "create_game api reg kind_name opt_id = (result, reg1)"
    and "success result"
    and "new_state result = Some created"
    and "get_game reg1 (state_id api created) = Some game"
    and "game_start api game ps = (start_result, game')"
    and "\<not> success start_result"
  shows "start_game api reg kind_name ps opt_id
           = (Inr [Lit ''Error starting game: '', opt_str (error start_result)],
              store_game reg1 (state_id api created) game')"
  using assms by (simp add: start_game_def)

lemma created_session_is_live:
  assumes "create_game (games_package w) reg kind_name opt_id = (result, reg1)"
    and "success result"
  shows "\<exists>created g. new_state result = Some created
           \<and> get_game reg1 (snap_id created) = Some g"
proof -
  from assms registry_create_game_cases [of w reg kind_name opt_id]
  obtain g0 where
    "result = ok (session_get_state g0)"
    "reg1 = reg\<lparr>games := AList.update (session_id g0) g0 (games reg)\<rparr>"
    by (auto simp add: package_fields failure_def)
  then have "new_state result = Some (session_get_state g0)
             \<and> get_game reg1 (snap_id (session_get_state g0)) = Some g0"
    by (simp add: ok_def session_get_state_def get_game_def AList.update_conv')
  then show ?thesis by blast
qed

lemma dave_created:
  "create_game demo_package two_sessions ''tic-tac-toe'' (Some ''g3'')
     = (ok (session_get_state pending_board),
        \<lparr>games = [(''g1'', board_session), (''g2'', cartpole_session), (''g3'', pending_board)]\<rparr>)"
  by (simp add: package_defs two_sessions_eq pending_board_def Let_def)

lemma dave_generated:
  "create_game demo_package two_sessions ''tic-tac-toe'' None
     = (ok (session_get_state pending_generated),
        \<lparr>games = [(''g1'', board_session), (''g2'', cartpole_session),
                  (''ggg'', pending_generated)]\<rparr>)"
  by (simp add: package_defs two_sessions_eq pending_generated_def longer_id_def Let_def)

lemma dave_start:
  "game_start demo_package pending_board [''dave''] = (failure ''InvalidPlayers'', pending_board)"
  "game_start demo_package pending_generated [''dave'']
     = (failure ''InvalidPlayers'', pending_generated)"
  by (simp_all add: demo_package_def games_package_def session_start_def pending_board_def
      pending_generated_def)

text \<open>
  Claim C10. When \<^verbatim>\<open>start_game\<close> has created a session (the result of
  \<^verbatim>\<open>create_game\<close> is a success with the snapshot \<open>created\<close>, and \<open>g\<close> is the session
  that the registry after the creation holds under that id) and the call of \<^verbatim>\<open>start\<close>
  on it fails, \<^verbatim>\<open>start_game\<close> replies with the start error
  (\<^verbatim>\<open>Error starting game: InvalidPlayers\<close>) and returns the registry as the creation
  left it: the new session is still live under its id, unchanged by the failed start,
  pending and without players. The creation is not rolled back. By
  \<open>created_session_is_live\<close> every successful creation has such a snapshot and session.
\<close>

theorem start_failure_keeps_session:
  assumes c: "create_game (games_package w) reg kind_name opt_id = (result, reg1)"
    and s: "success result"
    and n: "new_state result = Some created"
    and l: "get_game reg1 (snap_id created) = Some g"
    and f: "game_start (games_package w) g ps = (start_result, g')"
    and nf: "\<not> success start_result"
  shows "start_game (games_package w) reg kind_name ps opt_id
           = (Inr [Lit ''Error starting game: '', Val (PyStr ''InvalidPlayers'')], reg1)
       \<and> error start_result = Some ''InvalidPlayers''
       \<and> g' = g
       \<and> games reg1 = AList.update (snap_id created) g (games reg)
       \<and> session_id g = snap_id created \<and> session_type g = kind_name
       \<and> status g = Pending \<and> players g = []"
proof -
  from c s registry_create_game_cases [of w reg kind_name opt_id]
  obtain g0 where
    r: "result = ok (session_get_state g0)"
    and r1: "reg1 = reg\<lparr>games := AList.update (session_id g0) g0 (games reg)\<rparr>"
    and p: "status g0 = Pending" "players g0 = []" "session_type g0 = kind_name"
    by (auto simp add: package_fields failure_def)
  from r n have cr: "created = session_get_state g0"
    by (simp add: ok_def)
  then have sid: "snap_id created = session_id g0"
    by (simp add: session_get_state_def)
  from l r1 sid have g: "g = g0"
    by (simp add: get_game_def AList.update_conv')
  from f nf session_start_cases [of w g ps]
  have st: "start_result = failure ''InvalidPlayers''" and same: "g' = g"
    by (auto simp add: package_fields ok_def)
  have l': "get_game reg1 (state_id (games_package w) created) = Some g"
    using l by (simp add: package_fields)
  have "start_game (games_package w) reg kind_name ps opt_id
          = (Inr [Lit ''Error starting game: '', Val (PyStr ''InvalidPlayers'')], reg1)"
    using start_game_start_failure [OF c s n l' f nf] l st same
    by (simp add: package_fields failure_def opt_str_def store_game_same)
  moreover have "error start_result = Some ''InvalidPlayers''"
    using st by (simp add: failure_def)
  moreover have "games reg1 = AList.update (snap_id created) g (games reg)"
    using r1 sid g by simp
  ultimately show ?thesis
    using same sid g p by simp
qed

theorem start_failure_keeps_session_witness:
  "create_game demo_package two_sessions ''tic-tac-toe'' (Some ''g3'')
     = (ok (session_get_state pending_board),
        \<lparr>games = [(''g1'', board_session), (''g2'', cartpole_session), (''g3'', pending_board)]\<rparr>)
   \<and> success (ok (session_get_state pending_board))
   \<and> new_state (ok (session_get_state pending_board)) = Some (session_get_state pending_board)
   \<and> get_game \<lparr>games = [(''g1'', board_session), (''g2'', cartpole_session),
                         (''g3'', pending_board)]\<rparr>
        (snap_id (session_get_state pending_board)) = Some pending_board
   \<and> game_start demo_package pending_board [''dave'']
        = (failure ''InvalidPlayers'', pending_board)
   \<and> \<not> success (failure ''InvalidPlayers'' :: nat list snapshot game_result)
   \<and> start_game demo_package two_sessions ''tic-tac-toe'' [''dave''] (Some ''g3'')
        = (Inr [Lit ''Error starting game: '', Val (PyStr ''InvalidPlayers'')],
           \<lparr>games = [(''g1'', board_session), (''g2'', cartpole_session),
                     (''g3'', pending_board)]\<rparr>)
   \<and> status pending_board = Pending
   \<and> create_game demo_package two_sessions ''tic-tac-toe'' None
        = (ok (session_get_state pending_generated),
           \<lparr>games = [(''g1'', board_session), (''g2'', cartpole_session),
                     (''ggg'', pending_generated)]\<rparr>)
   \<and> get_game \<lparr>games = [(''g1'', board_session), (''g2'', cartpole_session),
                         (''ggg'', pending_generated)]\<rparr>
        (snap_id (session_get_state pending_generated)) = Some pending_generated
   \<and> game_start demo_package pending_generated [''dave'']
        = (failure ''InvalidPlayers'', pending_generated)
   \<and> start_game demo_package two_sessions ''tic-tac-toe'' [''dave''] None
        = (Inr [Lit ''Error starting game: '', Val (PyStr ''InvalidPlayers'')],
           \<lparr>games = [(''g1'', board_session), (''g2'', cartpole_session),
                     (''ggg'', pending_generated)]\<rparr>)
   \<and> status pending_generated = Pending"
proof -
  let ?r3 = "\<lparr>games = [(''g1'', board_session), (''g2'', cartpole_session),
                       (''g3'', pending_board)]\<rparr>"
  let ?rg = "\<lparr>games = [(''g1'', board_session), (''g2'', cartpole_session),
                       (''ggg'', pending_generated)]\<rparr>"
  have s1: "success (ok (session_get_state pending_board))"
    and n1: "new_state (ok (session_get_state pending_board))
               = Some (session_get_state pending_board)"
    and s2: "success (ok (session_get_state pending_generated))"
    and n2: "new_state (ok (session_get_state pending_generated))
               = Some (session_get_state pending_generated)"
    by (simp_all add: ok_def)
  have l1: "get_game ?r3 (snap_id (session_get_state pending_board)) = Some pending_board"
    by (simp add: get_game_def session_get_state_def pending_board_def)
  have l2: "get_game ?rg (snap_id (session_get_state pending_generated))
              = Some pending_generated"
    by (simp add: get_game_def session_get_state_def pending_generated_def)
  have nf: "\<not> success (failure ''InvalidPlayers'' :: nat list snapshot game_result)"
    by (simp add: failure_def)
  note t1 = start_failure_keeps_session
      [of counting_world, folded demo_package_def, OF dave_created s1 n1 l1 dave_start(1) nf]
  note t2 = start_failure_keeps_session
      [of counting_world, folded demo_package_def, OF dave_generated s2 n2 l2 dave_start(2) nf]
  show ?thesis
    using dave_created dave_generated s1 n1 l1 l2 dave_start nf t1 t2
    by simp
qed

subsection \<open>The two files\<close>

text \<open>
  Claim C9. The six handlers that both files define (\<^verbatim>\<open>list_games\<close>,
  \<^verbatim>\<open>start_game\<close>, \<^verbatim>\<open>make_move\<close>, \<^verbatim>\<open>get_game_state\<close>, \<^verbatim>\<open>reset_game\<close>,
  \<^verbatim>\<open>tic_tac_toe_place_mark\<close>) agree between \<^verbatim>\<open>main.py\<close> and \<^verbatim>\<open>server.py\<close>: on
  the same registry state and the same arguments, each pair returns the same value and
  leaves the same registry.
\<close>

theorem server_handlers_agree:
  "server_list_games api reg show_active = list_games api reg show_active
   \<and> server_start_game api reg kind_name ps opt_id = start_game api reg kind_name ps opt_id
   \<and> server_make_move api reg game_id atype pl plr = make_move api reg game_id atype pl plr
   \<and> server_get_game_state api reg game_id = get_game_state api reg game_id
   \<and> server_reset_game api reg game_id = reset_game api reg game_id
   \<and> server_tic_tac_toe_place_mark api reg game_id row col plr
       = tic_tac_toe_place_mark api reg game_id row col plr"
  unfolding server_list_games_def list_games_def server_start_game_def start_game_def
    server_make_move_def make_move_def server_get_game_state_def get_game_state_def
    server_reset_game_def reset_game_def server_tic_tac_toe_place_mark_def
    tic_tac_toe_place_mark_def
  by simp

end
